theory Spec2Isabelle
  imports Complex_Main "HOL-Library.AList" "HOL-Library.Multiset" "HOL-Library.Product_Lexorder"
begin

section \<open>Python strings and the library calls the program makes\<close>

text \<open>
  A Python \<open>str\<close> is modelled by \<open>string\<close>, one \<open>char\<close> per code point; the model
  covers text whose code points lie in 0..255. Python floats are modelled by exact
  rationals (no rounding), Python ints by \<open>int\<close>. \<open>int(s)\<close> raises \<open>ValueError\<close> for a
  literal of more than 4300 digits (the interpreter's default limit); the number a plain
  pattern captures is read with \<open>digits_value\<close>, which is \<open>int\<close> of the captured run
  within that limit.
\<close>

definition is_space :: "char \<Rightarrow> bool" where
  \<comment> \<open>\<open>str.isspace\<close> and the regex class \<open>\s\<close> on code points below 256\<close>
  "is_space c = ((of_char c :: nat) \<in> set [9, 10, 11, 12, 13, 28, 29, 30, 31, 32, 133, 160])"

definition is_digit :: "char \<Rightarrow> bool" where
  \<comment> \<open>the regex class \<open>\d\<close> on code points below 256\<close>
  "is_digit c = (48 \<le> (of_char c :: nat) \<and> (of_char c :: nat) \<le> 57)"

definition lower_char :: "char \<Rightarrow> char" where
  "lower_char c =
     (let n = (of_char c :: nat)
      in if (65 \<le> n \<and> n \<le> 90) \<or> (192 \<le> n \<and> n \<le> 222 \<and> n \<noteq> 215)
         then char_of (n + 32) else c)"

definition py_lower :: "string \<Rightarrow> string" where
  \<comment> \<open>\<open>str.lower()\<close>\<close>
  "py_lower s = map lower_char s"

fun starts_with :: "string \<Rightarrow> string \<Rightarrow> bool" where
  "starts_with [] s = True"
| "starts_with (c # cs) [] = False"
| "starts_with (c # cs) (d # ds) = (c = d \<and> starts_with cs ds)"

fun py_in :: "string \<Rightarrow> string \<Rightarrow> bool" where
  \<comment> \<open>\<open>v in s\<close> on strings: \<open>v\<close> occurs in \<open>s\<close> as a contiguous substring\<close>
  "py_in v [] = (v = [])"
| "py_in v (c # s) = (starts_with v (c # s) \<or> py_in v s)"

definition py_strip :: "string \<Rightarrow> string" where
  \<comment> \<open>\<open>str.strip()\<close>\<close>
  "py_strip s = rev (dropWhile is_space (rev (dropWhile is_space s)))"

fun py_split_from :: "string \<Rightarrow> string \<Rightarrow> string list" where
  "py_split_from w [] = (if w = [] then [] else [w])"
| "py_split_from w (c # s) =
     (if is_space c then (if w = [] then py_split_from [] s else w # py_split_from [] s)
      else py_split_from (w @ [c]) s)"

definition py_split :: "string \<Rightarrow> string list" where
  \<comment> \<open>\<open>str.split()\<close> without arguments: the maximal runs of non-whitespace\<close>
  "py_split s = py_split_from [] s"

definition digit_val :: "char \<Rightarrow> nat" where
  "digit_val c = of_char c - 48"

definition digits_value :: "string \<Rightarrow> nat" where
  \<comment> \<open>the decimal value of a run of digits\<close>
  "digits_value ds = foldl (\<lambda>a c. 10 * a + digit_val c) 0 ds"

definition is_int_space :: "char \<Rightarrow> bool" where
  \<comment> \<open>the whitespace \<open>int(s)\<close> skips around a literal: the C whitespace, and the
      whitespace above U+007F, which it first turns into a blank; the separators
      U+001C..U+001F are not skipped\<close>
  "is_int_space c = ((of_char c :: nat) \<in> set [9, 10, 11, 12, 13, 32, 133, 160])"

definition int_strip :: "string \<Rightarrow> string" where
  "int_strip s = rev (dropWhile is_int_space (rev (dropWhile is_int_space s)))"

definition int_max_str_digits :: nat where
  \<comment> \<open>\<open>sys.int_info.default_max_str_digits\<close>\<close>
  "int_max_str_digits = 4300"

definition int_literal_ok :: "string \<Rightarrow> bool" where
  \<comment> \<open>digits, with single underscores allowed between two digits, and no more digits
      than the limit\<close>
  "int_literal_ok s =
     (s \<noteq> [] \<and> is_digit (hd s) \<and> is_digit (last s)
      \<and> list_all (\<lambda>c. is_digit c \<or> c = CHR ''_'') s \<and> \<not> py_in ''__'' s
      \<and> length (filter is_digit s) \<le> int_max_str_digits)"

definition int_literal :: "string \<Rightarrow> int option" where
  "int_literal s =
     (if int_literal_ok s then Some (int (digits_value (filter is_digit s))) else None)"

definition py_int :: "string \<Rightarrow> int option" where
  \<comment> \<open>\<open>int(s)\<close> in base 10; \<open>None\<close> is the \<open>ValueError\<close>\<close>
  "py_int s =
     (case int_strip s of
        [] \<Rightarrow> None
      | c # cs \<Rightarrow>
          if c = CHR ''+'' then int_literal cs
          else if c = CHR ''-'' then map_option uminus (int_literal cs)
          else int_literal (c # cs))"

subsection \<open>The regular expressions of the program\<close>

text \<open>
  The patterns the program hands to \<open>re.search\<close> are sequences of four kinds of item:
  a literal text, \<open>\s+\<close>, \<open>\s*\<close> and the group \<open>(\d+)\<close>. \<open>re_match\<close> lists, in the
  order a backtracking matcher tries them (greedy: longest repetition first), the
  contents of group 1 for every way the pattern matches at the start of the subject.
\<close>

datatype re_elem = Lit string | Spaces1 | Spaces0 | Digits

fun re_match :: "re_elem list \<Rightarrow> string \<Rightarrow> string list" where
  "re_match [] s = [[]]"
| "re_match (Lit l # p) s = (if starts_with l s then re_match p (drop (length l) s) else [])"
| "re_match (Spaces1 # p) s =
     concat (map (\<lambda>k. re_match p (drop k s)) (rev [1 ..< Suc (length (takeWhile is_space s))]))"
| "re_match (Spaces0 # p) s =
     concat (map (\<lambda>k. re_match p (drop k s)) (rev [0 ..< Suc (length (takeWhile is_space s))]))"
| "re_match (Digits # p) s =
     concat (map (\<lambda>k. map (\<lambda>_. take k s) (re_match p (drop k s)))
                 (rev [1 ..< Suc (length (takeWhile is_digit s))]))"

fun re_search :: "re_elem list \<Rightarrow> string \<Rightarrow> string option" where
  \<comment> \<open>\<open>re.search\<close>: the leftmost match; \<open>Some g\<close> carries group 1 (empty without a group)\<close>
  "re_search p [] = (case re_match p [] of [] \<Rightarrow> None | g # _ \<Rightarrow> Some g)"
| "re_search p (c # s) = (case re_match p (c # s) of [] \<Rightarrow> re_search p s | g # _ \<Rightarrow> Some g)"

fun first_match :: "re_elem list list \<Rightarrow> string \<Rightarrow> string option" where
  \<comment> \<open>\<open>for pattern in patterns: match = re.search(pattern, q); if match: ...; break\<close>\<close>
  "first_match [] q = None"
| "first_match (p # ps) q =
     (case re_search p q of Some g \<Rightarrow> Some g | None \<Rightarrow> first_match ps q)"

section \<open>The Filter Set\<close>

record semantic =
  noun_phrases :: "string list"
  adjective_modifiers :: "(string \<times> string) list"
  brand_confidence :: "(string \<times> rat) list"
  color_confidence :: "(string \<times> rat) list"
  category_confidence :: "(string \<times> rat) list"

text \<open>
  The dict \<open>filters\<close>. A key the degraded parser does not create (\<open>entities\<close>,
  \<open>semantic_analysis\<close>) is \<open>None\<close>; every reader of \<open>semantic_analysis\<close> goes through
  \<open>filters.get\<close> and its truth value, so \<open>None\<close> also stands for the empty dict.
  Dicts keep insertion order and are association lists.
\<close>

record filters =
  category :: "string option"
  brand :: "string option"
  color :: "string option"
  price_max :: "int option"
  price_min :: "int option"
  gender :: "string option"
  "keywords" :: "string list"
  entities :: "(string \<times> string) list option"
  semantic_analysis :: "semantic option"

definition truthy_str :: "string option \<Rightarrow> bool" where
  \<comment> \<open>Python truth value of \<open>None\<close> or a string\<close>
  "truthy_str v = (case v of None \<Rightarrow> False | Some s \<Rightarrow> s \<noteq> [])"

definition truthy_int :: "int option \<Rightarrow> bool" where
  \<comment> \<open>Python truth value of \<open>None\<close> or an int: 0 is false\<close>
  "truthy_int v = (case v of None \<Rightarrow> False | Some n \<Rightarrow> n \<noteq> 0)"

section \<open>parse_query_fallback\<close>

definition category_synonyms :: "(string \<times> string list) list" where
  "category_synonyms =
    [(''sneakers'', [''sneakers'', ''trainers'', ''athletic shoes'', ''sports shoes'', ''running shoes'']),
     (''flats'', [''flats'', ''ballet flats'', ''loafers'']),
     (''boots'', [''boots'', ''ankle boots'', ''combat boots'', ''winter boots'']),
     (''sandals'', [''sandals'', ''flip flops'', ''slippers'']),
     (''heels'', [''heels'', ''high heels'', ''stilettos'', ''pumps'']),
     (''casual shoes'', [''casual'', ''everyday shoes'']),
     (''formal shoes'', [''formal'', ''dress shoes'', ''office shoes''])]"

definition brand_synonyms :: "(string \<times> string list) list" where
  "brand_synonyms =
    [(''nike'', [''nike'', ''air jordan'', ''jordan'']),
     (''adidas'', [''adidas'', ''three stripes'']),
     (''puma'', [''puma'']),
     (''reebok'', [''reebok'']),
     (''converse'', [''converse'', ''chuck taylor'', ''all star'']),
     (''vans'', [''vans'']),
     (''new balance'', [''new balance'', ''nb'']),
     (''mizuno'', [''mizuno'']),
     (''asics'', [''asics'']),
     (''under armour'', [''under armour'', ''ua''])]"

definition color_synonyms :: "(string \<times> string list) list" where
  "color_synonyms =
    [(''red'', [''red'', ''crimson'', ''burgundy'', ''scarlet'']),
     (''blue'', [''blue'', ''navy'', ''cobalt'', ''azure'']),
     (''black'', [''black'', ''ebony'', ''charcoal'']),
     (''white'', [''white'', ''ivory'', ''cream'', ''off-white'']),
     (''green'', [''green'', ''emerald'', ''olive'']),
     (''yellow'', [''yellow'', ''gold'', ''golden'']),
     (''pink'', [''pink'', ''rose'', ''magenta'']),
     (''purple'', [''purple'', ''violet'', ''lavender'']),
     (''brown'', [''brown'', ''tan'', ''beige'', ''khaki'']),
     (''grey'', [''grey'', ''gray'', ''silver'']),
     (''orange'', [''orange'', ''coral'', ''peach''])]"

definition gender_synonyms :: "(string \<times> string list) list" where
  "gender_synonyms =
    [(''women'', [''women'', ''female'', ''girls'', ''ladies'', ''womens'']),
     (''men'', [''men'', ''male'', ''boys'', ''mens'', ''guys'']),
     (''unisex'', [''unisex'', ''both'', ''all''])]"

definition under_patterns_fallback :: "re_elem list list" where
  "under_patterns_fallback =
    [[Lit ''under'', Spaces1, Digits],
     [Lit ''below'', Spaces1, Digits],
     [Lit ''less'', Spaces1, Lit ''than'', Spaces1, Digits],
     [Lit ''<'', Spaces0, Digits],
     [Lit ''price'', Spaces1, Lit ''<'', Spaces0, Digits],
     [Lit ''max'', Spaces1, Digits],
     [Lit ''maximum'', Spaces1, Digits],
     [Lit ''budget'', Spaces1, Digits]]"

definition over_patterns_fallback :: "re_elem list list" where
  "over_patterns_fallback =
    [[Lit ''over'', Spaces1, Digits],
     [Lit ''above'', Spaces1, Digits],
     [Lit ''more'', Spaces1, Lit ''than'', Spaces1, Digits],
     [Lit ''>'', Spaces0, Digits],
     [Lit ''price'', Spaces1, Lit ''>'', Spaces0, Digits],
     [Lit ''min'', Spaces1, Digits],
     [Lit ''minimum'', Spaces1, Digits]]"

fun first_synonym :: "(string \<times> string list) list \<Rightarrow> string \<Rightarrow> string option \<Rightarrow> string option" where
  \<comment> \<open>the nested loop over a synonym dict: the inner loop assigns the key at the first
      synonym found in the query, the outer loop stops once the field is truthy\<close>
  "first_synonym [] q cur = cur"
| "first_synonym ((main, synonyms) # rest) q cur =
     (let cur' = (if list_ex (\<lambda>synonym. py_in synonym q) synonyms then Some main else cur)
      in if truthy_str cur' then cur' else first_synonym rest q cur')"

definition group_int :: "string option \<Rightarrow> int option" where
  \<comment> \<open>\<open>int(match.group(1))\<close> when there is a match; group 1 is a run of digits\<close>
  "group_int m = map_option (\<lambda>g. int (digits_value g)) m"

definition regex_price :: "re_elem list list \<Rightarrow> re_elem list list \<Rightarrow> string
    \<Rightarrow> int option \<times> int option \<Rightarrow> int option \<times> int option" where
  \<comment> \<open>the two pattern loops over the query, on the pair (price_max, price_min)\<close>
  "regex_price unders overs q pp =
     (let pmax = (case first_match unders q of Some g \<Rightarrow> group_int (Some g) | None \<Rightarrow> fst pp);
          pmin = (if \<not> truthy_int pmax
                  then (case first_match overs q of Some g \<Rightarrow> group_int (Some g) | None \<Rightarrow> snd pp)
                  else snd pp)
      in (pmax, pmin))"

definition parse_query_fallback :: "string \<Rightarrow> filters" where
  "parse_query_fallback query_lower =
     (let words = filter (\<lambda>word. length (py_strip word) > 2) (py_split query_lower);
          pp = regex_price under_patterns_fallback over_patterns_fallback query_lower (None, None)
      in \<lparr> category = first_synonym category_synonyms query_lower None,
           brand = first_synonym brand_synonyms query_lower None,
           color = first_synonym color_synonyms query_lower None,
           price_max = fst pp,
           price_min = snd pp,
           gender = first_synonym gender_synonyms query_lower None,
           keywords = map py_strip words,
           entities = None,
           semantic_analysis = None \<rparr>)"

section \<open>parse_query_with_nlp\<close>

text \<open>
  The linguistic annotator is a parameter: a function from the query to what the
  program reads of its answer. Of a token the program reads \<open>text\<close>, \<open>pos_\<close>,
  \<open>lemma_\<close>, \<open>is_stop\<close> and, of each of its \<open>children\<close>, \<open>pos_\<close> and \<open>text\<close>; of an
  entity it reads \<open>label_\<close> and \<open>text\<close>. The global \<open>nlp\<close> is \<open>None\<close> when the model
  could not be loaded.
\<close>

record child_token =
  child_pos :: string
  child_text :: string

record token =
  tok_text :: string
  tok_pos :: string
  tok_lemma :: string
  tok_is_stop :: bool
  tok_children :: "child_token list"

record doc =
  ents :: "(string \<times> string) list"
  tokens :: "token list"

type_synonym annotator = "string \<Rightarrow> doc"

definition brand_entities :: "(string \<times> string list) list" where
  "brand_entities =
    [(''nike'', [''nike'', ''air jordan'', ''jordan brand'', ''swoosh'']),
     (''adidas'', [''adidas'', ''three stripes'', ''trefoil'', ''adi'']),
     (''puma'', [''puma'', ''cat'', ''fuma'']),
     (''reebok'', [''reebok'', ''rbk'']),
     (''converse'', [''converse'', ''chuck taylor'', ''all star'', ''chuck'']),
     (''vans'', [''vans'', ''off the wall'']),
     (''new balance'', [''new balance'', ''nb'', ''newbalance'']),
     (''mizuno'', [''mizuno'']),
     (''asics'', [''asics'', ''tiger'']),
     (''under armour'', [''under armour'', ''ua'', ''underarmour''])]"

definition color_entities :: "(string \<times> string list) list" where
  "color_entities =
    [(''black'', [''black'', ''ebony'', ''charcoal'', ''dark'', ''jet black'']),
     (''white'', [''white'', ''ivory'', ''cream'', ''off-white'', ''snow'', ''pearl'']),
     (''red'', [''red'', ''crimson'', ''burgundy'', ''scarlet'', ''cherry'', ''rose red'']),
     (''blue'', [''blue'', ''navy'', ''cobalt'', ''azure'', ''royal blue'', ''sky blue'']),
     (''green'', [''green'', ''emerald'', ''olive'', ''forest'', ''lime'']),
     (''yellow'', [''yellow'', ''gold'', ''golden'', ''amber'', ''sunshine'']),
     (''pink'', [''pink'', ''rose'', ''magenta'', ''fuchsia'', ''blush'']),
     (''purple'', [''purple'', ''violet'', ''lavender'', ''plum'', ''indigo'']),
     (''brown'', [''brown'', ''tan'', ''beige'', ''khaki'', ''chocolate'', ''camel'']),
     (''grey'', [''grey'', ''gray'', ''silver'', ''slate'', ''charcoal gray'']),
     (''orange'', [''orange'', ''coral'', ''peach'', ''burnt orange''])]"

definition category_entities :: "(string \<times> string list) list" where
  "category_entities =
    [(''sneakers'', [''sneakers'', ''trainers'', ''athletic shoes'', ''sports shoes'', ''running shoes'',
                     ''runners'', ''kicks'']),
     (''flats'', [''flats'', ''ballet flats'', ''loafers'', ''slip-ons'']),
     (''boots'', [''boots'', ''ankle boots'', ''combat boots'', ''winter boots'', ''hiking boots'']),
     (''sandals'', [''sandals'', ''flip flops'', ''slippers'', ''slides'']),
     (''heels'', [''heels'', ''high heels'', ''stilettos'', ''pumps'', ''wedges'']),
     (''casual shoes'', [''casual'', ''everyday shoes'', ''walking shoes'']),
     (''formal shoes'', [''formal'', ''dress shoes'', ''office shoes'', ''oxfords''])]"

definition gender_entities :: "(string \<times> string list) list" where
  "gender_entities =
    [(''women'', [''women'', ''female'', ''girls'', ''ladies'', ''womens'', ''woman'']),
     (''men'', [''men'', ''male'', ''boys'', ''mens'', ''guys'', ''man'']),
     (''unisex'', [''unisex'', ''both'', ''all'', ''universal''])]"

definition entities_found :: "(string \<times> string) list \<Rightarrow> (string \<times> string) list" where
  \<comment> \<open>\<open>for ent in doc.ents: entities_found[ent.label_] = ent.text.lower()\<close>\<close>
  "entities_found es = foldl (\<lambda>m (label, txt). AList.update label (py_lower txt) m) [] es"

definition get_truthy :: "(string \<times> string) list \<Rightarrow> string \<Rightarrow> string option" where
  \<comment> \<open>\<open>d.get(k)\<close> where the program tests its truth value: \<open>Some t\<close> only for a
      non-empty text\<close>
  "get_truthy d k = (case map_of d k of None \<Rightarrow> None | Some t \<Rightarrow> if t = [] then None else Some t)"

fun adj_children :: "child_token list \<Rightarrow> string \<Rightarrow> (string \<times> string) list
    \<Rightarrow> string \<times> (string \<times> string) list" where
  \<comment> \<open>the loop over \<open>token.children\<close>, on (noun_phrase, adjective_modifiers)\<close>
  "adj_children [] noun_phrase adjs = (noun_phrase, adjs)"
| "adj_children (c # cs) noun_phrase adjs =
     (if child_pos c = ''ADJ''
      then adj_children cs (py_lower (child_text c) @ '' '' @ noun_phrase)
                           (adjs @ [(py_lower (child_text c), noun_phrase)])
      else adj_children cs noun_phrase adjs)"

fun token_loop :: "token list \<Rightarrow> string list \<times> (string \<times> string) list \<times> string list
    \<Rightarrow> string list \<times> (string \<times> string) list \<times> string list" where
  \<comment> \<open>the loop over \<open>doc\<close>, on (noun_phrases, adjective_modifiers, keywords)\<close>
  "token_loop [] st = st"
| "token_loop (t # ts) (nps, adjs, kws) =
     (let (nps1, adjs1) =
            (if tok_pos t = ''NOUN''
             then (let (noun_phrase, adjs') = adj_children (tok_children t) (py_lower (tok_text t)) adjs
                   in (nps @ [noun_phrase], adjs'))
             else (nps, adjs));
          kws1 = (if tok_pos t \<in> set [''NOUN'', ''ADJ'', ''PROPN''] \<and> \<not> tok_is_stop t
                     \<and> length (tok_text t) > 2
                  then kws @ [py_lower (tok_lemma t)] else kws)
      in token_loop ts (nps1, adjs1, kws1))"

definition conf_add :: "(string \<times> rat) list \<Rightarrow> string \<Rightarrow> rat \<Rightarrow> (string \<times> rat) list" where
  \<comment> \<open>\<open>conf[k] = conf.get(k, 0) + v\<close>\<close>
  "conf_add conf k v = AList.update k ((case map_of conf k of None \<Rightarrow> 0 | Some x \<Rightarrow> x) + v) conf"

fun variants_loop :: "(string \<Rightarrow> rat) \<Rightarrow> string \<Rightarrow> string \<Rightarrow> string list
    \<Rightarrow> (string \<times> rat) list \<Rightarrow> (string \<times> rat) list" where
  "variants_loop score q k [] conf = conf"
| "variants_loop score q k (variant # vs) conf =
     variants_loop score q k vs (if py_in variant q then conf_add conf k (score variant) else conf)"

fun confidence_loop :: "(string \<Rightarrow> rat) \<Rightarrow> string \<Rightarrow> (string \<times> string list) list
    \<Rightarrow> (string \<times> rat) list \<Rightarrow> (string \<times> rat) list" where
  \<comment> \<open>the nested loop that fills a confidence dict; \<open>score\<close> is the body's score of a
      variant found in the query\<close>
  "confidence_loop score q [] conf = conf"
| "confidence_loop score q ((k, variants) # rest) conf =
     confidence_loop score q rest (variants_loop score q k variants conf)"

definition shoe_terms :: "string list" where
  "shoe_terms = [''shoes'', ''sneakers'', ''boots'', ''footwear'', ''kicks'']"

definition brand_context_score :: "string \<Rightarrow> string \<Rightarrow> rat" where
  "brand_context_score q variant =
     1.0 + (if list_ex (\<lambda>term. py_in term q) shoe_terms then 0.5 else 0)
         + (if variant = py_strip q \<or> py_in ('' '' @ variant @ '' '') ('' '' @ q @ '' '')
            then 0.3 else 0)"

definition color_variant_score :: "(string \<times> string) list \<Rightarrow> string \<Rightarrow> rat" where
  "color_variant_score adjs variant =
     foldl (\<lambda>confidence (adj, noun).
              if py_in variant adj
                 \<and> list_ex (\<lambda>shoe_word. py_in shoe_word noun) [''shoe'', ''sneaker'', ''boot'']
              then confidence + 0.5 else confidence) 1.0 adjs"

definition category_variant_score :: "string list \<Rightarrow> string \<Rightarrow> rat" where
  "category_variant_score nps variant = 1.0 + (if variant \<in> set nps then 0.3 else 0)"

fun py_max_by :: "string \<times> rat \<Rightarrow> (string \<times> rat) list \<Rightarrow> string \<times> rat" where
  \<comment> \<open>\<open>max(items, key=lambda x: x[1])\<close>: the first item of maximal value\<close>
  "py_max_by best [] = best"
| "py_max_by best (x # xs) = py_max_by (if snd best < snd x then x else best) xs"

definition winner :: "(string \<times> rat) list \<Rightarrow> string option" where
  \<comment> \<open>\<open>if conf: filters[field] = max(conf.items(), key=...)[0]\<close>\<close>
  "winner conf = (case conf of [] \<Rightarrow> None | x # xs \<Rightarrow> Some (fst (py_max_by x xs)))"

fun gender_loop :: "(string \<times> string list) list \<Rightarrow> string \<Rightarrow> string option" where
  "gender_loop [] q = None"
| "gender_loop ((g, variants) # rest) q =
     (if list_ex (\<lambda>variant. py_in variant q) variants then Some g else gender_loop rest q)"

subsection \<open>Price extraction with the annotator's entities\<close>

text \<open>
  For a CARDINAL entity the program appends the entity's text to a pattern prefix and
  searches the query with the result. A text without regex metacharacters stands for
  itself, and the search is \<open>re_search\<close> on the prefix followed by that literal. What
  \<open>re.search\<close> does for a text with metacharacters (a match, no match, or \<open>re.error\<close>
  for an ill-formed pattern) is the parameter \<open>rx\<close>, given the prefix, the text and the
  query. \<open>re.error\<close> is not caught by the parser.
\<close>

datatype error = ReError

datatype rx_result = RxMatch | RxNoMatch | RxError

type_synonym rx_oracle = "re_elem list \<Rightarrow> string \<Rightarrow> string \<Rightarrow> rx_result"

definition has_meta :: "string \<Rightarrow> bool" where
  "has_meta t = list_ex (\<lambda>c. c \<in> set (''.^$*+?{}[]|()'' @ [CHR 0x5C])) t"

definition search_interpolated :: "rx_oracle \<Rightarrow> re_elem list \<Rightarrow> string \<Rightarrow> string \<Rightarrow> rx_result" where
  \<comment> \<open>\<open>re.search(prefix + cardinal_text, query_lower)\<close>\<close>
  "search_interpolated rx prefix txt q =
     (if has_meta txt then rx prefix txt q
      else (case re_search (prefix @ [Lit txt]) q of None \<Rightarrow> RxNoMatch | Some _ \<Rightarrow> RxMatch))"

definition under_prefixes :: "re_elem list list" where
  "under_prefixes =
    [[Lit ''under'', Spaces1],
     [Lit ''below'', Spaces1],
     [Lit ''less'', Spaces1, Lit ''than'', Spaces1],
     [Lit ''<'', Spaces0],
     [Lit ''max'', Spaces1],
     [Lit ''budget'', Spaces1]]"

definition over_prefixes :: "re_elem list list" where
  "over_prefixes =
    [[Lit ''over'', Spaces1],
     [Lit ''above'', Spaces1],
     [Lit ''more'', Spaces1, Lit ''than'', Spaces1],
     [Lit ''>'', Spaces0],
     [Lit ''min'', Spaces1],
     [Lit ''minimum'', Spaces1]]"

fun cardinal_loop :: "rx_oracle \<Rightarrow> re_elem list list \<Rightarrow> string \<Rightarrow> string \<Rightarrow> error + int option" where
  \<comment> \<open>one loop over the interpolated patterns: \<open>Some n\<close> when a pattern matched and
      \<open>int(cardinal_text)\<close> gave \<open>n\<close> (the \<open>break\<close>); a \<open>ValueError\<close> is caught and the
      loop goes on\<close>
  "cardinal_loop rx [] txt q = Inr None"
| "cardinal_loop rx (p # ps) txt q =
     (case search_interpolated rx p txt q of
        RxError \<Rightarrow> Inl ReError
      | RxNoMatch \<Rightarrow> cardinal_loop rx ps txt q
      | RxMatch \<Rightarrow> (case py_int txt of Some n \<Rightarrow> Inr (Some n) | None \<Rightarrow> cardinal_loop rx ps txt q))"

definition entity_price :: "rx_oracle \<Rightarrow> (string \<times> string) list \<Rightarrow> string
    \<Rightarrow> error + (int option \<times> int option)" where
  \<comment> \<open>the \<open>if entities_found.get("MONEY") ... elif entities_found.get("CARDINAL")\<close>
      statement, giving (price_max, price_min)\<close>
  "entity_price rx ef q =
     (case get_truthy ef ''MONEY'' of
        Some money_text \<Rightarrow>
          Inr (case re_search [Digits] money_text of
                 Some g \<Rightarrow> (group_int (Some g), None)
               | None \<Rightarrow> (None, None))
      | None \<Rightarrow>
          (case get_truthy ef ''CARDINAL'' of
             Some cardinal_text \<Rightarrow>
               (case cardinal_loop rx under_prefixes cardinal_text q of
                  Inl e \<Rightarrow> Inl e
                | Inr (Some n) \<Rightarrow> Inr (Some n, None)
                | Inr None \<Rightarrow>
                    (case cardinal_loop rx over_prefixes cardinal_text q of
                       Inl e \<Rightarrow> Inl e
                     | Inr pmin \<Rightarrow> Inr (None, pmin)))
           | None \<Rightarrow> Inr (None, None)))"

definition under_patterns_nlp :: "re_elem list list" where
  "under_patterns_nlp =
    [[Lit ''under'', Spaces1, Digits],
     [Lit ''below'', Spaces1, Digits],
     [Lit ''less'', Spaces1, Lit ''than'', Spaces1, Digits],
     [Lit ''<'', Spaces0, Digits],
     [Lit ''max'', Spaces1, Digits],
     [Lit ''budget'', Spaces1, Digits]]"

definition over_patterns_nlp :: "re_elem list list" where
  "over_patterns_nlp =
    [[Lit ''over'', Spaces1, Digits],
     [Lit ''above'', Spaces1, Digits],
     [Lit ''more'', Spaces1, Lit ''than'', Spaces1, Digits],
     [Lit ''>'', Spaces0, Digits],
     [Lit ''min'', Spaces1, Digits],
     [Lit ''minimum'', Spaces1, Digits]]"

definition nlp_price :: "rx_oracle \<Rightarrow> (string \<times> string) list \<Rightarrow> string
    \<Rightarrow> error + (int option \<times> int option)" where
  \<comment> \<open>the entity statement, then
      \<open>if not filters["price_max"] and not filters["price_min"]:\<close> the plain patterns\<close>
  "nlp_price rx ef q =
     (case entity_price rx ef q of
        Inl e \<Rightarrow> Inl e
      | Inr pp \<Rightarrow>
          Inr (if \<not> truthy_int (fst pp) \<and> \<not> truthy_int (snd pp)
               then regex_price under_patterns_nlp over_patterns_nlp q pp
               else pp))"

definition parse_query_with_nlp :: "annotator option \<Rightarrow> rx_oracle \<Rightarrow> string \<Rightarrow> error + filters" where
  "parse_query_with_nlp nlp rx query =
     (let query_lower = py_lower query
      in case nlp of
           None \<Rightarrow> Inr (parse_query_fallback query_lower)
         | Some annotate \<Rightarrow>
             (let d = annotate query;
                  ef = entities_found (ents d);
                  (nps, adjs, kws) = token_loop (tokens d) ([], [], []);
                  bc = confidence_loop (brand_context_score query_lower) query_lower brand_entities [];
                  cc = confidence_loop (color_variant_score adjs) query_lower color_entities [];
                  kc = confidence_loop (category_variant_score nps) query_lower category_entities []
              in case nlp_price rx ef query_lower of
                   Inl e \<Rightarrow> Inl e
                 | Inr pp \<Rightarrow>
                     Inr \<lparr> category = winner kc,
                           brand = winner bc,
                           color = winner cc,
                           price_max = fst pp,
                           price_min = snd pp,
                           gender = gender_loop gender_entities query_lower,
                           keywords = kws,
                           entities = Some ef,
                           semantic_analysis =
                             Some \<lparr> noun_phrases = nps,
                                    adjective_modifiers = adjs,
                                    brand_confidence = bc,
                                    color_confidence = cc,
                                    category_confidence = kc \<rparr> \<rparr>))"

section \<open>search_products: the request for the rich backend\<close>

datatype clause =
    Multi_match string "string list" string "string option"
      \<comment> \<open>query, fields, fuzziness, type (when the key is given)\<close>
  | Term string string rat
      \<comment> \<open>field, value, boost\<close>
  | Match_phrase string string rat
      \<comment> \<open>field, query, boost\<close>

datatype range_clause = Range_filter string string int
  \<comment> \<open>field, \<open>lte\<close> or \<open>gte\<close>, bound\<close>

definition full_query_clause :: "string \<Rightarrow> clause" where
  "full_query_clause query =
     Multi_match query [''title^3'', ''description^2'', ''category^2'', ''brand^2'', ''tags'']
       ''AUTO'' (Some ''best_fields'')"

definition keyword_clause :: "string \<Rightarrow> clause" where
  "keyword_clause keyword =
     Multi_match keyword [''title^3'', ''description'', ''category'', ''brand'', ''tags'']
       ''AUTO'' None"

definition keyword_clauses :: "filters \<Rightarrow> clause list" where
  "keyword_clauses f = map keyword_clause (filter (\<lambda>keyword. length keyword > 2) (keywords f))"

definition confidence_clauses :: "string \<Rightarrow> rat \<Rightarrow> rat \<Rightarrow> (string \<times> rat) list \<Rightarrow> clause list" where
  \<comment> \<open>\<open>for value, confidence in conf.items(): boost_value = min(confidence * w, cap)\<close>\<close>
  "confidence_clauses field w cap conf =
     map (\<lambda>(v, confidence). Term field v (min (confidence * w) cap)) conf"

definition semantic_clauses :: "semantic \<Rightarrow> clause list" where
  \<comment> \<open>the branch taken when \<open>filters.get("semantic_analysis")\<close> is truthy\<close>
  "semantic_clauses sem =
     confidence_clauses ''brand.keyword'' 2.0 5.0 (brand_confidence sem)
     @ confidence_clauses ''color.keyword'' 1.8 4.0 (color_confidence sem)
     @ confidence_clauses ''category.keyword'' 1.5 3.0 (category_confidence sem)
     @ map (\<lambda>phrase. Match_phrase ''title'' phrase 1.3)
           (filter (\<lambda>phrase. length phrase > 3) (noun_phrases sem))"

definition exact_clause :: "string \<Rightarrow> string option \<Rightarrow> clause list" where
  \<comment> \<open>\<open>if filters[k]: should_clauses.append(term with boost 2.0)\<close>\<close>
  "exact_clause field v =
     (case v of None \<Rightarrow> [] | Some x \<Rightarrow> if x = [] then [] else [Term field x 2.0])"

definition plain_clauses :: "filters \<Rightarrow> clause list" where
  \<comment> \<open>the \<open>else\<close> branch\<close>
  "plain_clauses f =
     exact_clause ''category.keyword'' (category f)
     @ exact_clause ''brand.keyword'' (brand f)
     @ exact_clause ''color.keyword'' (color f)"

definition gender_should :: "string \<Rightarrow> string list" where
  "gender_should g =
     (if g = ''women'' then [''women'', ''girls'', ''female'']
      else if g = ''men'' then [''men'', ''boys'', ''male'']
      else [g])"

definition gender_clauses :: "filters \<Rightarrow> clause list" where
  "gender_clauses f =
     (case gender f of
        None \<Rightarrow> []
      | Some g \<Rightarrow> if g = [] then []
                  else map (\<lambda>gender_term. Term ''gender.keyword'' gender_term 1.5) (gender_should g))"

definition should_clauses :: "filters \<Rightarrow> string \<Rightarrow> clause list" where
  "should_clauses f query =
     [full_query_clause query]
     @ keyword_clauses f
     @ (case semantic_analysis f of Some sem \<Rightarrow> semantic_clauses sem | None \<Rightarrow> plain_clauses f)
     @ gender_clauses f"

definition filter_clauses :: "filters \<Rightarrow> range_clause list" where
  "filter_clauses f =
     (case price_max f of
        None \<Rightarrow> []
      | Some n \<Rightarrow> if n = 0 then [] else [Range_filter ''price'' ''lte'' n])
     @ (case price_min f of
          None \<Rightarrow> []
        | Some n \<Rightarrow> if n = 0 then [] else [Range_filter ''price'' ''gte'' n])"

record es_query =
  should :: "clause list"
  filter_key :: "range_clause list option"
  minimum_should_match :: nat
  sort_keys :: "(string \<times> string) list"
  size_key :: nat

definition build_es_query :: "filters \<Rightarrow> string \<Rightarrow> es_query" where
  \<comment> \<open>the \<open>filter\<close> key is present only for a non-empty list of range clauses\<close>
  "build_es_query f query =
     \<lparr> should = should_clauses f query,
       filter_key = (if filter_clauses f = [] then None else Some (filter_clauses f)),
       minimum_should_match = 1,
       sort_keys = [(''_score'', ''desc''), (''rating'', ''desc''), (''price'', ''asc'')],
       size_key = 50 \<rparr>"

section \<open>search_products: the request for the simple backend\<close>

datatype mongo_cond =
    Regex_i string string
      \<comment> \<open>field, pattern, with option \<open>i\<close>\<close>
  | Cmp string string int
      \<comment> \<open>field, \<open>$lte\<close> or \<open>$gte\<close>, bound\<close>
  | Or_conds "mongo_cond list"
  | And_conds "mongo_cond list"
  | Match_all
      \<comment> \<open>the empty query\<close>

definition attribute_cond :: "string \<Rightarrow> string option \<Rightarrow> mongo_cond list" where
  "attribute_cond field v =
     (case v of None \<Rightarrow> [] | Some x \<Rightarrow> if x = [] then [] else [Regex_i field x])"

definition price_conds :: "filters \<Rightarrow> mongo_cond list" where
  "price_conds f =
     (case price_max f of
        None \<Rightarrow> []
      | Some n \<Rightarrow> if n = 0 then [] else [Cmp ''price'' ''$lte'' n])
     @ (case price_min f of
          None \<Rightarrow> []
        | Some n \<Rightarrow> if n = 0 then [] else [Cmp ''price'' ''$gte'' n])"

definition term_condition :: "string \<Rightarrow> mongo_cond" where
  "term_condition term =
     Or_conds (map (\<lambda>field. Regex_i field term)
                   [''title'', ''description'', ''category'', ''brand'', ''color'', ''tags''])"

definition text_conds :: "filters \<Rightarrow> string \<Rightarrow> mongo_cond list" where
  "text_conds f query =
     (if keywords f \<noteq> []
         \<or> \<not> (truthy_str (category f) \<or> truthy_str (brand f) \<or> truthy_str (color f)
               \<or> truthy_str (gender f))
      then (let search_terms = (if keywords f \<noteq> [] then keywords f else [py_lower query]);
                text_conditions = map term_condition (filter (\<lambda>term. length term > 2) search_terms)
            in case text_conditions of
                 [] \<Rightarrow> []
               | [c] \<Rightarrow> [c]
               | _ \<Rightarrow> [And_conds text_conditions])
      else [])"

definition mongo_conds :: "filters \<Rightarrow> string \<Rightarrow> mongo_cond list" where
  \<comment> \<open>the list under \<open>$and\<close>\<close>
  "mongo_conds f query =
     attribute_cond ''category'' (category f)
     @ attribute_cond ''brand'' (brand f)
     @ attribute_cond ''color'' (color f)
     @ attribute_cond ''gender'' (gender f)
     @ price_conds f
     @ text_conds f query"

definition mongo_query :: "filters \<Rightarrow> string \<Rightarrow> mongo_cond" where
  "mongo_query f query =
     (case mongo_conds f query of
        [] \<Rightarrow> Match_all
      | [c] \<Rightarrow> c
      | cs \<Rightarrow> And_conds cs)"

section \<open>Candidates, the aggregation pipeline and apply_nlp_scoring\<close>

text \<open>
  A candidate document. A text key that may be missing is an option (the program reads
  it with \<open>product.get(key, "")\<close>); \<open>es_score\<close>, \<open>nlp_score\<close> and \<open>original_score\<close> are the
  keys \<open>_score\<close>, \<open>_nlp_score\<close> and \<open>_original_score\<close>, and \<open>score\<close> is the key the
  aggregation pipeline adds.
\<close>

record product =
  title :: "string option"
  p_brand :: "string option"
  p_color :: "string option"
  p_category :: "string option"
  p_gender :: "string option"
  price :: rat
  rating :: rat
  stock :: int
  es_score :: "rat option"
  nlp_score :: "rat option"
  original_score :: "rat option"
  score :: "rat option"

datatype mongo_error = DivideByZero

definition mongo_divide :: "rat \<Rightarrow> rat \<Rightarrow> mongo_error + rat" where
  \<comment> \<open>\<open>$divide\<close> fails the aggregation on a zero divisor\<close>
  "mongo_divide a b = (if b = 0 then Inl DivideByZero else Inr (a / b))"

definition composite_score :: "product \<Rightarrow> mongo_error + rat" where
  \<comment> \<open>the \<open>$add\<close> expression of the \<open>$addFields\<close> stage\<close>
  "composite_score p =
     (case mongo_divide 100 (price p + 1) of
        Inl e \<Rightarrow> Inl e
      | Inr d \<Rightarrow> Inr (rating p * 2 + (if stock p > 0 then 5 else 0) + d))"

fun add_fields :: "product list \<Rightarrow> mongo_error + product list" where
  "add_fields [] = Inr []"
| "add_fields (p # ps) =
     (case composite_score p of
        Inl e \<Rightarrow> Inl e
      | Inr v \<Rightarrow> (case add_fields ps of
                    Inl e \<Rightarrow> Inl e
                  | Inr qs \<Rightarrow> Inr (p\<lparr>score := Some v\<rparr> # qs)))"

definition score_of :: "product \<Rightarrow> rat" where
  "score_of p = (case score p of None \<Rightarrow> 0 | Some v \<Rightarrow> v)"

definition sort_stage :: "product list \<Rightarrow> product list" where
  \<comment> \<open>\<open>{"$sort": {"score": -1, "price": 1, "rating": -1}}\<close>, each document carrying a
      score; the store leaves open the order of documents equal on all three keys\<close>
  "sort_stage ps = sort_key (\<lambda>p. (- score_of p, price p, - rating p)) ps"

definition pipeline :: "(product \<Rightarrow> bool) \<Rightarrow> product list \<Rightarrow> mongo_error + product list" where
  \<comment> \<open>\<open>$match\<close>, \<open>$addFields\<close>, \<open>$sort\<close>, \<open>$limit\<close> over a collection; \<open>matches\<close> is what
      the store decides for the query of the \<open>$match\<close> stage\<close>
  "pipeline matches coll =
     (case add_fields (filter matches coll) of
        Inl e \<Rightarrow> Inl e
      | Inr ps \<Rightarrow> Inr (take 50 (sort_stage ps)))"

definition get_str :: "string option \<Rightarrow> string" where
  \<comment> \<open>\<open>product.get(key, "")\<close>\<close>
  "get_str v = (case v of None \<Rightarrow> [] | Some s \<Rightarrow> s)"

definition get_conf :: "(string \<times> rat) list \<Rightarrow> string \<Rightarrow> rat" where
  \<comment> \<open>\<open>conf.get(target, 1.0)\<close>\<close>
  "get_conf conf k = (case map_of conf k of None \<Rightarrow> 1.0 | Some v \<Rightarrow> v)"

definition semantic_of :: "filters \<Rightarrow> semantic" where
  \<comment> \<open>\<open>filters.get("semantic_analysis", {})\<close>; a key missing from it reads as falsy, like
      an empty value\<close>
  "semantic_of f =
     (case semantic_analysis f of
        Some sem \<Rightarrow> sem
      | None \<Rightarrow> \<lparr> noun_phrases = [], adjective_modifiers = [], brand_confidence = [],
                  color_confidence = [], category_confidence = [] \<rparr>)"

definition brand_step :: "filters \<Rightarrow> product \<Rightarrow> rat \<Rightarrow> rat" where
  "brand_step f p s =
     (case brand f of
        None \<Rightarrow> s
      | Some b \<Rightarrow>
          if b \<noteq> [] \<and> brand_confidence (semantic_of f) \<noteq> []
          then (let product_brand = py_lower (get_str (p_brand p));
                    target_brand = py_lower b
                in if product_brand = target_brand
                   then s + get_conf (brand_confidence (semantic_of f)) target_brand * 3.0
                   else s * 0.3)
          else s)"

definition color_step :: "filters \<Rightarrow> product \<Rightarrow> rat \<Rightarrow> rat" where
  "color_step f p s =
     (case color f of
        None \<Rightarrow> s
      | Some c \<Rightarrow>
          if c \<noteq> [] \<and> color_confidence (semantic_of f) \<noteq> []
          then (let product_color = py_lower (get_str (p_color p));
                    target_color = py_lower c
                in if product_color = target_color
                   then s + get_conf (color_confidence (semantic_of f)) target_color * 2.0
                   else s * 0.4)
          else s)"

definition category_step :: "filters \<Rightarrow> string \<Rightarrow> product \<Rightarrow> rat \<Rightarrow> rat" where
  "category_step f original_query p s =
     (case category f of
        None \<Rightarrow> s
      | Some c \<Rightarrow>
          if c \<noteq> [] \<and> category_confidence (semantic_of f) \<noteq> []
          then (let product_category = py_lower (get_str (p_category p));
                    target_category = py_lower c
                in if product_category = target_category
                   then s + get_conf (category_confidence (semantic_of f)) target_category * 1.5
                   else if py_in ''shoes'' (py_lower original_query)
                           \<and> product_category \<in> set [''sneakers'', ''flats'', ''boots'', ''sandals'', ''heels'']
                   then s + 0.5
                   else s * 0.7)
          else s)"

definition gender_match :: "string \<Rightarrow> string \<Rightarrow> bool" where
  "gender_match target_gender product_gender =
     (if target_gender = ''women'' \<and> product_gender \<in> set [''women'', ''girls'', ''female'']
      then True
      else if target_gender = ''men'' \<and> product_gender \<in> set [''men'', ''boys'', ''male'']
      then True
      else if target_gender = product_gender then True
      else False)"

definition gender_step :: "filters \<Rightarrow> product \<Rightarrow> rat \<Rightarrow> rat" where
  "gender_step f p s =
     (case gender f of
        None \<Rightarrow> s
      | Some g \<Rightarrow>
          if g \<noteq> []
          then (if gender_match (py_lower g) (py_lower (get_str (p_gender p)))
                then s + 1.0 else s * 0.6)
          else s)"

definition phrase_step :: "filters \<Rightarrow> product \<Rightarrow> rat \<Rightarrow> rat" where
  "phrase_step f p s =
     foldl (\<lambda>acc phrase. if py_in phrase (py_lower (get_str (title p))) then acc + 0.8 else acc)
           s (noun_phrases (semantic_of f))"

definition base_score :: "product \<Rightarrow> rat" where
  \<comment> \<open>\<open>product.get("_score", 1.0)\<close>\<close>
  "base_score p = (case es_score p of None \<Rightarrow> 1.0 | Some v \<Rightarrow> v)"

definition nlp_score_of :: "filters \<Rightarrow> string \<Rightarrow> product \<Rightarrow> rat" where
  \<comment> \<open>the body of the loop over the products, up to the value stored\<close>
  "nlp_score_of f original_query p =
     phrase_step f p
       (gender_step f p
         (category_step f original_query p
           (color_step f p
             (brand_step f p (base_score p)))))"

definition score_product :: "filters \<Rightarrow> string \<Rightarrow> product \<Rightarrow> product" where
  "score_product f original_query p =
     p\<lparr> nlp_score := Some (nlp_score_of f original_query p),
        original_score := Some (base_score p) \<rparr>"

definition sort_value :: "product \<Rightarrow> rat" where
  \<comment> \<open>\<open>lambda x: x.get("_nlp_score", 0)\<close>\<close>
  "sort_value p = (case nlp_score p of None \<Rightarrow> 0 | Some v \<Rightarrow> v)"

definition py_sort_reverse :: "('a \<Rightarrow> rat) \<Rightarrow> 'a list \<Rightarrow> 'a list" where
  \<comment> \<open>\<open>list.sort(key=k, reverse=True)\<close>: the stable sort in descending order of key,
      which is the stable ascending sort on the negated key\<close>
  "py_sort_reverse k xs = sort_key (\<lambda>x. - k x) xs"

definition apply_nlp_scoring :: "product list \<Rightarrow> filters \<Rightarrow> string \<Rightarrow> product list" where
  "apply_nlp_scoring products f original_query =
     (if products = [] then products
      else py_sort_reverse sort_value (map (score_product f original_query) products))"

section \<open>Notions used to state the properties\<close>

definition term_field :: "clause \<Rightarrow> string option" where
  \<comment> \<open>the field of an exact-match clause\<close>
  "term_field c = (case c of Term fld v b \<Rightarrow> Some fld | _ \<Rightarrow> None)"

definition term_boost :: "clause \<Rightarrow> rat option" where
  \<comment> \<open>the boost of an exact-match clause\<close>
  "term_boost c = (case c of Term fld v b \<Rightarrow> Some b | _ \<Rightarrow> None)"

definition terms_on :: "string \<Rightarrow> clause list \<Rightarrow> clause list" where
  \<comment> \<open>the exact-match clauses on one field, in the order of the request\<close>
  "terms_on fld cs = filter (\<lambda>c. term_field c = Some fld) cs"

definition per_keyword :: "clause \<Rightarrow> bool" where
  \<comment> \<open>the shape of the fuzzy clause built for one keyword: its field list, and no
      \<open>type\<close> key (the clause over the full query has \<open>best_fields\<close>)\<close>
  "per_keyword c =
     (case c of
        Multi_match q flds fz ty \<Rightarrow>
          flds = [''title^3'', ''description'', ''category'', ''brand'', ''tags''] \<and> ty = None
      | _ \<Rightarrow> False)"

text \<open>
  The adjusted score as the specification words it, for a candidate with backend
  relevance score \<open>s0\<close>: five rules in sequence, each on the score the rule before
  left. A confidence map exists when the Filter Set carries a semantic analysis;
  \<open>brand_confidence(target)\<close> is the entry of the target in the map; the texts of the
  candidate and the query are compared in lower case.
\<close>

definition adjusted_score_spec :: "filters \<Rightarrow> string \<Rightarrow> product \<Rightarrow> rat \<Rightarrow> rat" where
  "adjusted_score_spec f query p s0 =
     (let s1 = (case (brand f, semantic_analysis f) of
                  (Some target, Some sem) \<Rightarrow>
                    if py_lower (get_str (p_brand p)) = target
                    then s0 + the (map_of (brand_confidence sem) target) * 3.0
                    else s0 * 0.3
                | _ \<Rightarrow> s0);
          s2 = (case (color f, semantic_analysis f) of
                  (Some target, Some sem) \<Rightarrow>
                    if py_lower (get_str (p_color p)) = target
                    then s1 + the (map_of (color_confidence sem) target) * 2.0
                    else s1 * 0.4
                | _ \<Rightarrow> s1);
          s3 = (case (category f, semantic_analysis f) of
                  (Some target, Some sem) \<Rightarrow>
                    if py_lower (get_str (p_category p)) = target
                    then s2 + the (map_of (category_confidence sem) target) * 1.5
                    else if py_in ''shoes'' (py_lower query)
                            \<and> py_lower (get_str (p_category p))
                                \<in> {''sneakers'', ''flats'', ''boots'', ''sandals'', ''heels''}
                    then s2 + 0.5
                    else s2 * 0.7
                | _ \<Rightarrow> s2);
          s4 = (case gender f of
                  Some target \<Rightarrow>
                    if py_lower (get_str (p_gender p)) \<in> set (gender_should target)
                    then s3 + 1.0 else s3 * 0.6
                | None \<Rightarrow> s3)
      in s4 + 0.8 * of_nat (length (filter (\<lambda>phrase. py_in phrase (py_lower (get_str (title p))))
                                          (noun_phrases (semantic_of f)))))"

text \<open>
  A canonical value: a non-empty text in lower case. \<open>attribute_ok v conf\<close> says of a
  resolved attribute that it is canonical and, when its confidence map exists, a key of
  the map.
\<close>

definition canonical :: "string \<Rightarrow> bool" where
  "canonical k = (k \<noteq> [] \<and> py_lower k = k)"

definition attribute_ok :: "string option \<Rightarrow> (string \<times> rat) list option \<Rightarrow> bool" where
  "attribute_ok v conf =
     (case v of
        None \<Rightarrow> True
      | Some k \<Rightarrow> canonical k \<and> (case conf of None \<Rightarrow> True | Some c \<Rightarrow> map_of c k \<noteq> None))"

text \<open>
  The order of the \<open>$sort\<close> stage: score descending, then price ascending, then rating
  descending; and the composite score as a formula.
\<close>

definition ranked_before :: "product \<Rightarrow> product \<Rightarrow> bool" where
  "ranked_before a b =
     (score_of b < score_of a
      \<or> (score_of a = score_of b
          \<and> (price a < price b \<or> (price a = price b \<and> rating b \<le> rating a))))"

definition composite_formula :: "product \<Rightarrow> rat" where
  "composite_formula p = rating p * 2 + (if stock p > 0 then 5 else 0) + 100 / (price p + 1)"

text \<open>
  The annotator reports an entity as a span of tokens of the query. For a query of
  words separated by single blanks, \<open>word_spans\<close> lists the texts of all runs of whole
  words, and \<open>entity_texts d label\<close> the texts of the entities of one label.
  \<open>price_of_entities\<close> is \<open>nlp_price\<close> on the two entity texts it reads.
\<close>

fun join_words :: "string list \<Rightarrow> string" where
  "join_words [] = []"
| "join_words [w] = w"
| "join_words (w # ws) = w @ '' '' @ join_words ws"

definition word_spans :: "string \<Rightarrow> string list" where
  "word_spans q =
     (let ws = py_split q
      in concat (map (\<lambda>i. map (\<lambda>n. join_words (take n (drop i ws))) [1 ..< Suc (length ws - i)])
                     [0 ..< length ws]))"

definition entity_texts :: "doc \<Rightarrow> string \<Rightarrow> string list" where
  "entity_texts d label = map snd (filter (\<lambda>e. fst e = label) (ents d))"

definition price_of_entities :: "rx_oracle \<Rightarrow> string option \<Rightarrow> string option \<Rightarrow> string
    \<Rightarrow> error + (int option \<times> int option)" where
  "price_of_entities rx money cardinal q =
     nlp_price rx ((case money of None \<Rightarrow> [] | Some t \<Rightarrow> [(''MONEY'', t)])
                   @ (case cardinal of None \<Rightarrow> [] | Some t \<Rightarrow> [(''CARDINAL'', t)])) q"

text \<open>The two candidates of the specification's end-to-end example.\<close>

definition nike_air_max :: product where
  "nike_air_max =
     \<lparr> title = Some ''Nike Air Max'', p_brand = Some ''nike'', p_color = Some ''red'',
       p_category = Some ''sneakers'', p_gender = None, price = 70, rating = 4.5, stock = 3,
       es_score = Some 2, nlp_score = None, original_score = None, score = None \<rparr>"

definition adidas_runner :: product where
  "adidas_runner =
     \<lparr> title = Some ''Adidas Runner'', p_brand = Some ''adidas'', p_color = Some ''blue'',
       p_category = Some ''sneakers'', p_gender = None, price = 60, rating = 4.8, stock = 0,
       es_score = Some 2, nlp_score = None, original_score = None, score = None \<rparr>"



section \<open>Price bounds\<close>

lemma regex_price_not_both:
  "\<not> truthy_int (snd pp) \<Longrightarrow>
   \<not> (truthy_int (fst (regex_price us os q pp)) \<and> truthy_int (snd (regex_price us os q pp)))"
  by (simp add: regex_price_def Let_def)

lemma entity_price_one_side:
  "entity_price rx ef q = Inr pp \<Longrightarrow> fst pp = None \<or> snd pp = None"
  by (auto simp: entity_price_def split: option.splits sum.splits)

lemma nlp_price_not_both:
  assumes "nlp_price rx ef q = Inr pp"
  shows "\<not> (truthy_int (fst pp) \<and> truthy_int (snd pp))"
proof (cases "entity_price rx ef q")
  case (Inl e)
  with assms show ?thesis by (simp add: nlp_price_def)
next
  case (Inr p0)
  show ?thesis
  proof (cases "\<not> truthy_int (fst p0) \<and> \<not> truthy_int (snd p0)")
    case True
    with Inr assms have "pp = regex_price under_patterns_nlp over_patterns_nlp q p0"
      by (simp add: nlp_price_def)
    with True show ?thesis using regex_price_not_both [of p0] by blast
  next
    case False
    with Inr assms have "pp = p0" by (auto simp: nlp_price_def)
    moreover from entity_price_one_side [OF Inr]
    have "\<not> (truthy_int (fst p0) \<and> truthy_int (snd p0))"
      by (auto simp: truthy_int_def)
    ultimately show ?thesis by simp
  qed
qed

lemma parse_query_with_nlp_prices:
  assumes "parse_query_with_nlp (Some a) rx query = Inr f"
  shows "nlp_price rx (entities_found (ents (a query))) (py_lower query)
           = Inr (price_max f, price_min f)"
  using assms
  by (auto simp: parse_query_with_nlp_def Let_def split: sum.splits prod.splits)

lemma fallback_prices:
  "(price_max (parse_query_fallback q), price_min (parse_query_fallback q))
     = regex_price under_patterns_fallback over_patterns_fallback q (None, None)"
  by (simp add: parse_query_fallback_def Let_def)

lemma parse_query_with_nlp_None:
  "parse_query_with_nlp None rx query = Inr (parse_query_fallback (py_lower query))"
  by (simp add: parse_query_with_nlp_def Let_def)

text \<open>
  Claim C1, as stated: on both interpretation paths the Filter Set has at most one of
  \<open>price_min\<close> and \<open>price_max\<close> set. The degraded parser sets both for the query
  \<open>under 0 over 50\<close>: the under-pattern sets \<open>price_max\<close> to 0, which the test
  \<open>if not filters["price_max"]\<close> reads as unset, and the over-pattern then sets
  \<open>price_min\<close> to 50.
\<close>

theorem both_bounds_set_counterexample:
  "\<not> (price_max (parse_query_fallback ''under 0 over 50'') = None
       \<or> price_min (parse_query_fallback ''under 0 over 50'') = None)"
  by code_simp

text \<open>
  Claim C1, amended: on both interpretation paths the two bounds are never both set to
  a non-zero value; both can be set only when one of them is 0. The first conjunct is
  the degraded parser on any text, the second is \<open>parse_query_with_nlp\<close> with or
  without an annotator, whatever the annotator and the interpolated searches return.
\<close>

theorem price_bounds_not_both_nonzero:
  "\<not> (truthy_int (price_max (parse_query_fallback q))
       \<and> truthy_int (price_min (parse_query_fallback q)))
   \<and> (parse_query_with_nlp nlp rx query = Inr f
        \<longrightarrow> \<not> (truthy_int (price_max f) \<and> truthy_int (price_min f)))"
proof (intro conjI impI)
  have "\<not> truthy_int (snd (None :: int option, None :: int option))"
    by (simp add: truthy_int_def)
  from regex_price_not_both [OF this]
  show fb: "\<not> (truthy_int (price_max (parse_query_fallback q))
                \<and> truthy_int (price_min (parse_query_fallback q)))" for q
    using fallback_prices [of q] by (metis fst_conv snd_conv)
  assume r: "parse_query_with_nlp nlp rx query = Inr f"
  show "\<not> (truthy_int (price_max f) \<and> truthy_int (price_min f))"
  proof (cases nlp)
    case None
    with r have "f = parse_query_fallback (py_lower query)"
      by (simp add: parse_query_with_nlp_None)
    then show ?thesis using fb by simp
  next
    case (Some a)
    with r nlp_price_not_both [OF parse_query_with_nlp_prices] show ?thesis by fastforce
  qed
qed

theorem price_bounds_not_both_nonzero_witness:
  "parse_query_with_nlp (Some (\<lambda>q. \<lparr>ents = [(''CARDINAL'', ''0'')], tokens = []\<rparr>))
       (\<lambda>p t q. RxNoMatch) ''over 0 under 50''
     = Inr \<lparr>category = None, brand = None, color = None, price_max = Some 50,
            price_min = Some 0, gender = None, keywords = [],
            entities = Some [(''CARDINAL'', ''0'')],
            semantic_analysis =
              Some \<lparr>noun_phrases = [], adjective_modifiers = [], brand_confidence = [],
                    color_confidence = [], category_confidence = []\<rparr>\<rparr>
   \<and> \<not> (truthy_int (Some 50) \<and> truthy_int (Some 0))"
proof -
  let ?f = "\<lparr>category = None, brand = None, color = None, price_max = Some 50,
             price_min = Some 0, gender = None, keywords = [],
             entities = Some [(''CARDINAL'', ''0'')],
             semantic_analysis =
               Some \<lparr>noun_phrases = [], adjective_modifiers = [], brand_confidence = [],
                     color_confidence = [], category_confidence = []\<rparr>\<rparr>"
  have h: "parse_query_with_nlp (Some (\<lambda>q. \<lparr>ents = [(''CARDINAL'', ''0'')], tokens = []\<rparr>))
             (\<lambda>p t q. RxNoMatch) ''over 0 under 50'' = Inr ?f"
    by code_simp
  from price_bounds_not_both_nonzero [THEN conjunct2, THEN mp, OF h]
  have "\<not> (truthy_int (price_max ?f) \<and> truthy_int (price_min ?f))" .
  with h show ?thesis by simp
qed

section \<open>The clauses of the rich-backend request\<close>

lemma terms_on_append: "terms_on fld (xs @ ys) = terms_on fld xs @ terms_on fld ys"
  by (simp add: terms_on_def)

lemma terms_on_Cons_full: "terms_on fld (full_query_clause q # cs) = terms_on fld cs"
  by (simp add: terms_on_def term_field_def full_query_clause_def)

lemma terms_on_keyword_clauses: "terms_on fld (keyword_clauses f) = []"
  by (simp add: terms_on_def keyword_clauses_def keyword_clause_def term_field_def)

lemma terms_on_confidence_clauses:
  "terms_on fld (confidence_clauses fld' w cap conf)
     = (if fld = fld' then confidence_clauses fld' w cap conf else [])"
  by (induction conf) (auto simp: terms_on_def confidence_clauses_def term_field_def)

lemma terms_on_phrases: "terms_on fld (map (\<lambda>phrase. Match_phrase t phrase b) ps) = []"
  by (simp add: terms_on_def term_field_def)

lemma terms_on_gender_clauses:
  "fld \<noteq> ''gender.keyword'' \<Longrightarrow> terms_on fld (gender_clauses f) = []"
  by (auto simp: terms_on_def gender_clauses_def term_field_def split: option.splits)

lemma terms_on_exact_clause:
  "terms_on fld (exact_clause fld' v) = (if fld = fld' then exact_clause fld' v else [])"
  by (auto simp: terms_on_def exact_clause_def term_field_def split: option.splits)

lemma terms_on_semantic:
  assumes "semantic_analysis f = Some sem" and "fld \<noteq> ''gender.keyword''"
  shows "terms_on fld (should_clauses f query) = terms_on fld (semantic_clauses sem)"
  using assms
  by (simp add: should_clauses_def terms_on_append terms_on_Cons_full terms_on_keyword_clauses
      terms_on_gender_clauses)

lemma terms_on_plain:
  assumes "semantic_analysis f = None" and "fld \<noteq> ''gender.keyword''"
  shows "terms_on fld (should_clauses f query) = terms_on fld (plain_clauses f)"
  using assms
  by (simp add: should_clauses_def terms_on_append terms_on_Cons_full terms_on_keyword_clauses
      terms_on_gender_clauses)

lemma boost_confidence_clauses:
  "c \<in> set (confidence_clauses fld w cap conf) \<Longrightarrow> term_boost c = Some b \<Longrightarrow> b \<le> cap"
  by (auto simp: confidence_clauses_def term_boost_def)

text \<open>
  Claim C2: for a Filter Set that carries confidence maps, the exact-match clauses on
  the brand, color and category fields are, entry by entry of the map, clauses with
  boost \<open>min (confidence * weight) clamp\<close>, with weight 2.0 and clamp 5.0 for brand, 1.8
  and 4.0 for color, 1.5 and 3.0 for category; so every boost on these fields is at
  most 5.0, 4.0 and 3.0, however large the confidence.
\<close>

theorem confidence_boosts_clamped:
  assumes "semantic_analysis f = Some sem"
  shows "terms_on ''brand.keyword'' (should_clauses f query)
           = map (\<lambda>(v, confidence). Term ''brand.keyword'' v (min (confidence * 2.0) 5.0))
                 (brand_confidence sem)
       \<and> terms_on ''color.keyword'' (should_clauses f query)
           = map (\<lambda>(v, confidence). Term ''color.keyword'' v (min (confidence * 1.8) 4.0))
                 (color_confidence sem)
       \<and> terms_on ''category.keyword'' (should_clauses f query)
           = map (\<lambda>(v, confidence). Term ''category.keyword'' v (min (confidence * 1.5) 3.0))
                 (category_confidence sem)
       \<and> (\<forall>c \<in> set (should_clauses f query). \<forall>b. term_boost c = Some b \<longrightarrow>
             (term_field c = Some ''brand.keyword'' \<longrightarrow> b \<le> 5.0)
           \<and> (term_field c = Some ''color.keyword'' \<longrightarrow> b \<le> 4.0)
           \<and> (term_field c = Some ''category.keyword'' \<longrightarrow> b \<le> 3.0))"
proof -
  have br: "terms_on ''brand.keyword'' (should_clauses f query)
              = confidence_clauses ''brand.keyword'' 2.0 5.0 (brand_confidence sem)"
    using terms_on_semantic [OF assms, of "''brand.keyword''"]
    by (simp add: semantic_clauses_def terms_on_append terms_on_confidence_clauses terms_on_phrases)
  have co: "terms_on ''color.keyword'' (should_clauses f query)
              = confidence_clauses ''color.keyword'' 1.8 4.0 (color_confidence sem)"
    using terms_on_semantic [OF assms, of "''color.keyword''"]
    by (simp add: semantic_clauses_def terms_on_append terms_on_confidence_clauses terms_on_phrases)
  have ca: "terms_on ''category.keyword'' (should_clauses f query)
              = confidence_clauses ''category.keyword'' 1.5 3.0 (category_confidence sem)"
    using terms_on_semantic [OF assms, of "''category.keyword''"]
    by (simp add: semantic_clauses_def terms_on_append terms_on_confidence_clauses terms_on_phrases)
  have bound: "b \<le> cap"
    if "c \<in> set (should_clauses f query)" "term_boost c = Some b" "term_field c = Some fld"
       "terms_on fld (should_clauses f query) = confidence_clauses fld w cap conf"
    for c b fld w cap conf
  proof -
    from that(1,3) have "c \<in> set (terms_on fld (should_clauses f query))"
      by (simp add: terms_on_def)
    with that(4) have "c \<in> set (confidence_clauses fld w cap conf)" by simp
    from boost_confidence_clauses [OF this that(2)] show ?thesis .
  qed
  show ?thesis
    using br co ca bound [OF _ _ _ br] bound [OF _ _ _ co] bound [OF _ _ _ ca]
    by (simp add: confidence_clauses_def)
qed

theorem confidence_boosts_clamped_witness:
  "semantic_analysis
      \<lparr>category = Some ''sneakers'', brand = Some ''nike'', color = Some ''red'',
       price_max = None, price_min = None, gender = None, keywords = [],
       entities = Some [],
       semantic_analysis =
         Some \<lparr>noun_phrases = [], adjective_modifiers = [],
               brand_confidence = [(''nike'', 1000)], color_confidence = [(''red'', 1.5)],
               category_confidence = [(''sneakers'', 2.6)]\<rparr>\<rparr>
     = Some \<lparr>noun_phrases = [], adjective_modifiers = [],
             brand_confidence = [(''nike'', 1000)], color_confidence = [(''red'', 1.5)],
             category_confidence = [(''sneakers'', 2.6)]\<rparr>
   \<and> terms_on ''brand.keyword''
        (should_clauses
          \<lparr>category = Some ''sneakers'', brand = Some ''nike'', color = Some ''red'',
           price_max = None, price_min = None, gender = None, keywords = [],
           entities = Some [],
           semantic_analysis =
             Some \<lparr>noun_phrases = [], adjective_modifiers = [],
                   brand_confidence = [(''nike'', 1000)], color_confidence = [(''red'', 1.5)],
                   category_confidence = [(''sneakers'', 2.6)]\<rparr>\<rparr> ''red nike sneakers'')
     = [Term ''brand.keyword'' ''nike'' 5.0]
   \<and> terms_on ''color.keyword''
        (should_clauses
          \<lparr>category = Some ''sneakers'', brand = Some ''nike'', color = Some ''red'',
           price_max = None, price_min = None, gender = None, keywords = [],
           entities = Some [],
           semantic_analysis =
             Some \<lparr>noun_phrases = [], adjective_modifiers = [],
                   brand_confidence = [(''nike'', 1000)], color_confidence = [(''red'', 1.5)],
                   category_confidence = [(''sneakers'', 2.6)]\<rparr>\<rparr> ''red nike sneakers'')
     = [Term ''color.keyword'' ''red'' 2.7]
   \<and> terms_on ''category.keyword''
        (should_clauses
          \<lparr>category = Some ''sneakers'', brand = Some ''nike'', color = Some ''red'',
           price_max = None, price_min = None, gender = None, keywords = [],
           entities = Some [],
           semantic_analysis =
             Some \<lparr>noun_phrases = [], adjective_modifiers = [],
                   brand_confidence = [(''nike'', 1000)], color_confidence = [(''red'', 1.5)],
                   category_confidence = [(''sneakers'', 2.6)]\<rparr>\<rparr> ''red nike sneakers'')
     = [Term ''category.keyword'' ''sneakers'' 3.0]"
proof -
  let ?sem = "\<lparr>noun_phrases = [], adjective_modifiers = [],
               brand_confidence = [(''nike'', 1000)], color_confidence = [(''red'', 1.5)],
               category_confidence = [(''sneakers'', 2.6)]\<rparr>"
  let ?f = "\<lparr>category = Some ''sneakers'', brand = Some ''nike'', color = Some ''red'',
             price_max = None, price_min = None, gender = None, keywords = [],
             entities = Some [], semantic_analysis = Some ?sem\<rparr>"
  have h: "semantic_analysis ?f = Some ?sem" by simp
  from confidence_boosts_clamped [OF h, of "''red nike sneakers''"]
  show ?thesis by simp
qed

lemma py_split_from_no_space:
  "\<forall>c \<in> set w. \<not> is_space c \<Longrightarrow> \<forall>x \<in> set (py_split_from w s). \<forall>c \<in> set x. \<not> is_space c"
proof (induction s arbitrary: w)
  case Nil
  then show ?case by simp
next
  case (Cons a s)
  have e: "\<forall>x \<in> set (py_split_from [] s). \<forall>c \<in> set x. \<not> is_space c"
    using Cons.IH [of "[]"] by simp
  show ?case
  proof (cases "is_space a")
    case True
    then have "set (py_split_from w (a # s)) \<subseteq> insert w (set (py_split_from [] s))"
      by auto
    with e Cons.prems show ?thesis by blast
  next
    case False
    with Cons.prems have "\<forall>c \<in> set (w @ [a]). \<not> is_space c" by simp
    from Cons.IH [OF this] False show ?thesis by simp
  qed
qed

lemma py_strip_no_space: "\<forall>c \<in> set w. \<not> is_space c \<Longrightarrow> py_strip w = w"
proof -
  assume h: "\<forall>c \<in> set w. \<not> is_space c"
  then have "dropWhile is_space w = w" by (cases w) simp_all
  moreover from h have "dropWhile is_space (rev w) = rev w"
    using last_in_set [of w] by (auto simp: dropWhile_eq_self_iff hd_rev)
  ultimately show ?thesis by (simp add: py_strip_def)
qed


lemma fallback_keywords:
  "keywords (parse_query_fallback q) = filter (\<lambda>w. length w > 2) (py_split q)"
proof -
  have ns: "\<forall>w \<in> set (py_split q). py_strip w = w"
    using py_split_from_no_space [of "[]" q] py_strip_no_space by (auto simp: py_split_def)
  have "filter (\<lambda>w. length (py_strip w) > 2) (py_split q) = filter (\<lambda>w. length w > 2) (py_split q)"
    using ns by (auto intro: filter_cong)
  moreover have "map py_strip (filter (\<lambda>w. length w > 2) (py_split q)) = filter (\<lambda>w. length w > 2) (py_split q)"
    by (intro map_idI) (use ns in auto)
  ultimately show ?thesis by (simp add: parse_query_fallback_def Let_def)
qed

lemma per_keyword_keyword_clauses: "filter per_keyword (keyword_clauses f) = keyword_clauses f"
  by (simp add: keyword_clauses_def keyword_clause_def per_keyword_def)

lemma per_keyword_confidence_clauses:
  "filter per_keyword (confidence_clauses fld w cap conf) = []"
  by (induction conf) (auto simp: confidence_clauses_def per_keyword_def)

lemma per_keyword_others:
  "\<not> per_keyword (full_query_clause q)"
  "filter per_keyword (semantic_clauses sem) = []"
  "filter per_keyword (plain_clauses f) = []"
  "filter per_keyword (gender_clauses f) = []"
  by (auto simp: per_keyword_def full_query_clause_def semantic_clauses_def
      per_keyword_confidence_clauses plain_clauses_def exact_clause_def gender_clauses_def split: option.splits)

lemma per_keyword_should:
  "filter per_keyword (should_clauses f query) = keyword_clauses f"
  by (simp add: should_clauses_def per_keyword_keyword_clauses per_keyword_others split: option.splits)

text \<open>
  Claim C5, as stated: for a Filter Set of the degraded parser the request holds no
  per-keyword fuzzy clause. The loop over \<open>filters.get("keywords", [])\<close> has no test of
  the path, and the degraded parser fills \<open>keywords\<close> with the words of the query: for
  \<open>red nike sneakers under 80\<close> the request holds per-keyword clauses.
\<close>

theorem degraded_keyword_clauses_counterexample:
  "filter per_keyword
     (should_clauses (parse_query_fallback ''red nike sneakers under 80'')
                     ''red nike sneakers under 80'') \<noteq> []"
  by code_simp

text \<open>
  Claim C5, amended: on the degraded path too the request holds one per-keyword fuzzy
  clause for every keyword longer than 2 characters; the keywords of the degraded
  parser are the whitespace-delimited words of the query longer than 2 characters, so
  the per-keyword clauses of the request are exactly one clause for each such word, in
  order.
\<close>

theorem degraded_keyword_clauses:
  "filter per_keyword (should_clauses (parse_query_fallback q) query)
     = map keyword_clause (filter (\<lambda>w. length w > 2) (py_split q))"
  by (simp add: per_keyword_should keyword_clauses_def fallback_keywords)

lemma fallback_semantic_analysis: "semantic_analysis (parse_query_fallback q) = None"
  by (simp add: parse_query_fallback_def Let_def)

lemma should_clauses_plain:
  "semantic_analysis f = None \<Longrightarrow>
   should_clauses f query
     = full_query_clause query # keyword_clauses f @ plain_clauses f @ gender_clauses f"
  by (simp add: should_clauses_def)

lemma exact_clause_shape:
  "length (exact_clause fld v) \<le> 1 \<and> (\<forall>c \<in> set (exact_clause fld v). term_boost c = Some 2.0)"
  by (auto simp: exact_clause_def term_boost_def split: option.splits)

lemma terms_on_plain_clauses:
  "terms_on ''brand.keyword'' (plain_clauses f) = exact_clause ''brand.keyword'' (brand f)"
  "terms_on ''color.keyword'' (plain_clauses f) = exact_clause ''color.keyword'' (color f)"
  "terms_on ''category.keyword'' (plain_clauses f) = exact_clause ''category.keyword'' (category f)"
  by (simp_all add: plain_clauses_def terms_on_append terms_on_exact_clause)

lemma semantic_present_iff:
  "parse_query_with_nlp nlp rx query = Inr f \<Longrightarrow> (semantic_analysis f \<noteq> None) = (nlp \<noteq> None)"
  by (cases nlp)
     (auto simp: parse_query_with_nlp_def Let_def fallback_semantic_analysis
           split: sum.splits prod.splits)

text \<open>
  Claim C6: the Filter Set of the degraded parser carries no semantic analysis (no
  confidence maps, no noun phrases); for it the clause builder takes the \<open>else\<close> branch,
  so that the request holds at most one exact-match clause on each of the brand, color
  and category fields, with boost 2.0; and a Filter Set returned by
  \<open>parse_query_with_nlp\<close> carries confidence maps exactly when an annotator is loaded.
\<close>

theorem degraded_takes_plain_branch:
  "semantic_analysis (parse_query_fallback q) = None
   \<and> should_clauses (parse_query_fallback q) query
       = full_query_clause query # keyword_clauses (parse_query_fallback q)
           @ plain_clauses (parse_query_fallback q) @ gender_clauses (parse_query_fallback q)
   \<and> (\<forall>fld \<in> set [''brand.keyword'', ''color.keyword'', ''category.keyword''].
         length (terms_on fld (should_clauses (parse_query_fallback q) query)) \<le> 1
       \<and> (\<forall>c \<in> set (terms_on fld (should_clauses (parse_query_fallback q) query)).
             term_boost c = Some 2.0))
   \<and> (parse_query_with_nlp nlp rx query' = Inr f
        \<longrightarrow> (semantic_analysis f \<noteq> None) = (nlp \<noteq> None))"
proof -
  let ?f = "parse_query_fallback q"
  have n: "semantic_analysis ?f = None" by (rule fallback_semantic_analysis)
  have t: "terms_on fld (should_clauses ?f query) = terms_on fld (plain_clauses ?f)"
    if "fld \<noteq> ''gender.keyword''" for fld
    by (rule terms_on_plain [OF n that])
  have "length (terms_on fld (should_clauses ?f query)) \<le> 1
        \<and> (\<forall>c \<in> set (terms_on fld (should_clauses ?f query)). term_boost c = Some 2.0)"
    if "fld \<in> set [''brand.keyword'', ''color.keyword'', ''category.keyword'']" for fld
  proof -
    from that consider "fld = ''brand.keyword''" | "fld = ''color.keyword''"
      | "fld = ''category.keyword''" by auto
    then show ?thesis
    proof cases
      case 1
      then show ?thesis using t [of fld] exact_clause_shape [of fld "brand ?f"]
        by (simp add: terms_on_plain_clauses)
    next
      case 2
      then show ?thesis using t [of fld] exact_clause_shape [of fld "color ?f"]
        by (simp add: terms_on_plain_clauses)
    next
      case 3
      then show ?thesis using t [of fld] exact_clause_shape [of fld "category ?f"]
        by (simp add: terms_on_plain_clauses)
    qed
  qed
  with n should_clauses_plain [OF n, of query] semantic_present_iff [of nlp rx query' f]
  show ?thesis by blast
qed

theorem degraded_takes_plain_branch_witness:
  "parse_query_with_nlp (Some (\<lambda>q. \<lparr>ents = [], tokens = []\<rparr>)) (\<lambda>p t q. RxNoMatch) ''nike''
     = Inr \<lparr>category = None, brand = Some ''nike'', color = None, price_max = None,
            price_min = None, gender = None, keywords = [], entities = Some [],
            semantic_analysis =
              Some \<lparr>noun_phrases = [], adjective_modifiers = [],
                    brand_confidence = [(''nike'', 1.3)], color_confidence = [],
                    category_confidence = []\<rparr>\<rparr>
   \<and> semantic_analysis (parse_query_fallback ''nike'') = None
   \<and> ''brand.keyword'' \<in> set [''brand.keyword'', ''color.keyword'', ''category.keyword'']
   \<and> Term ''brand.keyword'' ''nike'' 2.0
        \<in> set (terms_on ''brand.keyword'' (should_clauses (parse_query_fallback ''nike'') ''nike''))
   \<and> length (terms_on ''brand.keyword'' (should_clauses (parse_query_fallback ''nike'') ''nike'')) \<le> 1
   \<and> term_boost (Term ''brand.keyword'' ''nike'' 2.0) = Some 2.0"
proof -
  let ?a = "\<lambda>q::string. \<lparr>ents = [], tokens = []\<rparr>"
  let ?f = "\<lparr>category = None, brand = Some ''nike'', color = None, price_max = None,
             price_min = None, gender = None, keywords = [], entities = Some [],
             semantic_analysis =
               Some \<lparr>noun_phrases = [], adjective_modifiers = [],
                     brand_confidence = [(''nike'', 1.3)], color_confidence = [],
                     category_confidence = []\<rparr>\<rparr>"
  note T = degraded_takes_plain_branch
             [of "''nike''" "''nike''" "Some ?a" "\<lambda>p t q. RxNoMatch" "''nike''" ?f]
  have h: "parse_query_with_nlp (Some ?a) (\<lambda>p t q. RxNoMatch) ''nike'' = Inr ?f"
    by code_simp
  have m: "Term ''brand.keyword'' ''nike'' 2.0
             \<in> set (terms_on ''brand.keyword'' (should_clauses (parse_query_fallback ''nike'') ''nike''))"
    by code_simp
  from T have a: "semantic_analysis (parse_query_fallback ''nike'') = None" by blast
  from T have "\<forall>fld \<in> set [''brand.keyword'', ''color.keyword'', ''category.keyword''].
         length (terms_on fld (should_clauses (parse_query_fallback ''nike'') ''nike'')) \<le> 1
       \<and> (\<forall>c \<in> set (terms_on fld (should_clauses (parse_query_fallback ''nike'') ''nike'')).
             term_boost c = Some 2.0)" by blast
  then have b: "length (terms_on ''brand.keyword'' (should_clauses (parse_query_fallback ''nike'') ''nike'')) \<le> 1
       \<and> (\<forall>c \<in> set (terms_on ''brand.keyword'' (should_clauses (parse_query_fallback ''nike'') ''nike'')).
             term_boost c = Some 2.0)" by simp
  with m have c: "term_boost (Term ''brand.keyword'' ''nike'' 2.0) = Some 2.0" by blast
  from h a b c m show ?thesis by simp
qed

section \<open>The two example queries\<close>

lemma nlp_price_entities:
  "nlp_price rx ef q = price_of_entities rx (get_truthy ef ''MONEY'') (get_truthy ef ''CARDINAL'') q"
  by (auto simp: nlp_price_def entity_price_def price_of_entities_def get_truthy_def
      split: option.splits)

lemma price_of_entities_money:
  "t \<noteq> [] \<Longrightarrow> price_of_entities rx (Some t) c q = price_of_entities rx (Some t) None q"
  by (cases c) (auto simp: price_of_entities_def nlp_price_def entity_price_def get_truthy_def
      split: option.splits)

lemma entities_fold_lookup:
  "map_of (foldl (\<lambda>m (label, txt). AList.update label (py_lower txt) m) m0 es) l = Some t
   \<Longrightarrow> map_of m0 l = Some t \<or> t \<in> py_lower ` set (map snd (filter (\<lambda>e. fst e = l) es))"
proof (induction es arbitrary: m0)
  case Nil
  then show ?case by simp
next
  case (Cons e es)
  obtain k v where e: "e = (k, v)" by (cases e)
  from Cons.prems have "map_of (foldl (\<lambda>m (label, txt). AList.update label (py_lower txt) m)
                          (AList.update k (py_lower v) m0) es) l = Some t"
    by (simp add: e)
  from Cons.IH [OF this] show ?case
    by (auto simp: e AList.update_conv' split: if_splits)
qed

lemma get_truthy_entities_found:
  "get_truthy (entities_found (ents d)) l = Some t \<Longrightarrow> t \<in> py_lower ` set (entity_texts d l)"
  using entities_fold_lookup [of "[]" "ents d" l t]
  by (auto simp: get_truthy_def entities_found_def entity_texts_def split: option.splits if_splits)

lemma single_winners_80:
  "winner (confidence_loop sc ''red nike sneakers under 80'' brand_entities []) = Some ''nike''"
  "winner (confidence_loop sc ''red nike sneakers under 80'' color_entities []) = Some ''red''"
  "winner (confidence_loop sc ''red nike sneakers under 80'' category_entities []) = Some ''sneakers''"
  "gender_loop gender_entities ''red nike sneakers under 80'' = None"
  by code_simp+

lemma annotated_parse_fields:
  assumes "nlp_price rx (entities_found (ents (a query))) (py_lower query) = Inr pp"
  shows "\<exists>f sb sc sk. parse_query_with_nlp (Some a) rx query = Inr f
           \<and> price_max f = fst pp \<and> price_min f = snd pp
           \<and> brand f = winner (confidence_loop sb (py_lower query) brand_entities [])
           \<and> color f = winner (confidence_loop sc (py_lower query) color_entities [])
           \<and> category f = winner (confidence_loop sk (py_lower query) category_entities [])
           \<and> gender f = gender_loop gender_entities (py_lower query)"
  using assms
  by (auto simp: parse_query_with_nlp_def Let_def split: prod.splits)

lemma spans_80:
  "map py_lower (word_spans ''red nike sneakers under 80'') = word_spans ''red nike sneakers under 80''"
  "list_all (\<lambda>t. t \<noteq> []) (word_spans ''red nike sneakers under 80'')"
  "py_lower ''red nike sneakers under 80'' = ''red nike sneakers under 80''"
  by code_simp+

lemma price_80_money:
  "list_all (\<lambda>t. price_of_entities rx (Some t) None ''red nike sneakers under 80'' = Inr (Some 80, None))
     (word_spans ''red nike sneakers under 80'')"
  by code_simp

lemma price_80_cardinal:
  "list_all (\<lambda>c. price_of_entities rx None c ''red nike sneakers under 80'' = Inr (Some 80, None))
     (None # map Some (word_spans ''red nike sneakers under 80''))"
  by code_simp

lemma fallback_80:
  "brand (parse_query_fallback ''red nike sneakers under 80'') = Some ''nike''"
  "color (parse_query_fallback ''red nike sneakers under 80'') = Some ''red''"
  "category (parse_query_fallback ''red nike sneakers under 80'') = Some ''sneakers''"
  "price_max (parse_query_fallback ''red nike sneakers under 80'') = Some 80"
  "price_min (parse_query_fallback ''red nike sneakers under 80'') = None"
  by code_simp+

lemma truthy_in_spans:
  assumes "set (entity_texts d l) \<subseteq> set spans" and "map py_lower spans = spans"
    and "get_truthy (entities_found (ents d)) l = Some t"
  shows "t \<in> set spans \<and> t \<noteq> []"
proof -
  from get_truthy_entities_found [OF assms(3)] assms(1) have "t \<in> py_lower ` set spans" by auto
  also have "py_lower ` set spans = set (map py_lower spans)" by simp
  finally have "t \<in> set spans" by (simp only: assms(2))
  moreover from assms(3) have "t \<noteq> []"
    by (auto simp: get_truthy_def split: option.splits if_splits)
  ultimately show ?thesis by simp
qed

lemma nlp_price_80:
  assumes "set (entity_texts d ''MONEY'') \<union> set (entity_texts d ''CARDINAL'')
             \<subseteq> set (word_spans ''red nike sneakers under 80'')"
  shows "nlp_price rx (entities_found (ents d)) ''red nike sneakers under 80'' = Inr (Some 80, None)"
proof -
  let ?q = "''red nike sneakers under 80''"
  let ?ef = "entities_found (ents d)"
  from assms have m: "set (entity_texts d ''MONEY'') \<subseteq> set (word_spans ?q)"
    and c: "set (entity_texts d ''CARDINAL'') \<subseteq> set (word_spans ?q)" by auto
  show ?thesis
  proof (cases "get_truthy ?ef ''MONEY''")
    case (Some t)
    from truthy_in_spans [OF m spans_80(1) Some] have t: "t \<in> set (word_spans ?q)" "t \<noteq> []"
      by simp_all
    from price_80_money [of rx] t(1)
    have p: "price_of_entities rx (Some t) None ?q = Inr (Some 80, None)"
      by (simp add: list_all_iff)
    have "nlp_price rx ?ef ?q = price_of_entities rx (Some t) (get_truthy ?ef ''CARDINAL'') ?q"
      by (simp only: nlp_price_entities Some)
    also have "\<dots> = price_of_entities rx (Some t) None ?q"
      by (rule price_of_entities_money [OF t(2)])
    finally show ?thesis by (simp only: p)
  next
    case None
    have "get_truthy ?ef ''CARDINAL'' \<in> set (None # map Some (word_spans ?q))"
    proof (cases "get_truthy ?ef ''CARDINAL''")
      case None
      then show ?thesis by simp
    next
      case (Some t)
      from truthy_in_spans [OF c spans_80(1) Some] Some show ?thesis by simp
    qed
    with price_80_cardinal [of rx]
    have "price_of_entities rx None (get_truthy ?ef ''CARDINAL'') ?q = Inr (Some 80, None)"
      unfolding list_all_iff by blast
    with None show ?thesis by (simp add: nlp_price_entities)
  qed
qed

text \<open>
  Claim C3: the query \<open>red nike sneakers under 80\<close> is interpreted as brand nike,
  color red, category sneakers, \<open>price_max\<close> 80 and \<open>price_min\<close> unset: by the degraded
  parser (no annotator), and by the annotated parser for every annotator whose MONEY
  and CARDINAL entities are runs of whole words of the query, whatever its tokens.
\<close>

theorem red_nike_sneakers_under_80:
  assumes "\<forall>a. nlp = Some a \<longrightarrow>
             set (entity_texts (a ''red nike sneakers under 80'') ''MONEY'')
               \<union> set (entity_texts (a ''red nike sneakers under 80'') ''CARDINAL'')
             \<subseteq> set (word_spans ''red nike sneakers under 80'')"
  shows "\<exists>f. parse_query_with_nlp nlp rx ''red nike sneakers under 80'' = Inr f
           \<and> brand f = Some ''nike'' \<and> color f = Some ''red''
           \<and> category f = Some ''sneakers''
           \<and> price_max f = Some 80 \<and> price_min f = None"
proof (cases nlp)
  case None
  then show ?thesis
    by (simp add: parse_query_with_nlp_None spans_80(3) fallback_80)
next
  case (Some a)
  let ?q = "''red nike sneakers under 80''"
  from assms Some have "set (entity_texts (a ?q) ''MONEY'') \<union> set (entity_texts (a ?q) ''CARDINAL'')
             \<subseteq> set (word_spans ?q)" by simp
  from nlp_price_80 [OF this, of rx]
  have "nlp_price rx (entities_found (ents (a ?q))) (py_lower ?q) = Inr (Some 80, None)"
    by (simp only: spans_80(3))
  from annotated_parse_fields [of rx a ?q "(Some 80, None)", OF this] show ?thesis
    unfolding Some spans_80(3) single_winners_80 by auto
qed

theorem red_nike_sneakers_under_80_witness:
  "set (entity_texts \<lparr>ents = [(''CARDINAL'', ''80'')], tokens = []\<rparr> ''MONEY'')
     \<union> set (entity_texts \<lparr>ents = [(''CARDINAL'', ''80'')], tokens = []\<rparr> ''CARDINAL'')
     \<subseteq> set (word_spans ''red nike sneakers under 80'')
   \<and> (\<exists>f. parse_query_with_nlp (Some (\<lambda>q. \<lparr>ents = [(''CARDINAL'', ''80'')], tokens = []\<rparr>))
              (\<lambda>p t q. RxNoMatch) ''red nike sneakers under 80'' = Inr f
           \<and> brand f = Some ''nike'' \<and> color f = Some ''red''
           \<and> category f = Some ''sneakers''
           \<and> price_max f = Some 80 \<and> price_min f = None)"
proof -
  have h: "set (entity_texts \<lparr>ents = [(''CARDINAL'', ''80'')], tokens = []\<rparr> ''MONEY'')
     \<union> set (entity_texts \<lparr>ents = [(''CARDINAL'', ''80'')], tokens = []\<rparr> ''CARDINAL'')
     \<subseteq> set (word_spans ''red nike sneakers under 80'')"
    by code_simp
  then have "\<forall>a. Some (\<lambda>q::string. \<lparr>ents = [(''CARDINAL'', ''80'')], tokens = []\<rparr>) = Some a \<longrightarrow>
             set (entity_texts (a ''red nike sneakers under 80'') ''MONEY'')
               \<union> set (entity_texts (a ''red nike sneakers under 80'') ''CARDINAL'')
             \<subseteq> set (word_spans ''red nike sneakers under 80'')"
    by auto
  from red_nike_sneakers_under_80 [OF this, of "\<lambda>p t q. RxNoMatch"] h show ?thesis by blast
qed






















section \<open>The rescorer\<close>

lemma py_max_by_mem: "py_max_by b xs \<in> set (b # xs)"
  by (induction xs arbitrary: b) (auto split: if_splits)

lemma winner_key: "winner conf = Some k \<Longrightarrow> map_of conf k \<noteq> None"
proof -
  assume "winner conf = Some k"
  then obtain x xs where c: "conf = x # xs" and k: "k = fst (py_max_by x xs)"
    by (auto simp: winner_def split: list.splits)
  from py_max_by_mem [of x xs] c k have "k \<in> fst ` set conf" by auto
  then show ?thesis by (simp add: map_of_eq_None_iff)
qed

lemma conf_add_keys: "fst ` set (conf_add conf k v) = insert k (fst ` set conf)"
  by (simp add: conf_add_def AList.dom_update)

lemma variants_loop_keys:
  "fst ` set (variants_loop sc q k vs conf) \<subseteq> insert k (fst ` set conf)"
proof (induction vs arbitrary: conf)
  case Nil
  then show ?case by auto
next
  case (Cons variant vs)
  show ?case
  proof (cases "py_in variant q")
    case True
    with Cons.IH [of "conf_add conf k (sc variant)"] show ?thesis
      by (auto simp: conf_add_keys)
  next
    case False
    with Cons.IH [of conf] show ?thesis by simp
  qed
qed

lemma confidence_loop_keys:
  "fst ` set (confidence_loop sc q dict conf) \<subseteq> fst ` set dict \<union> fst ` set conf"
proof (induction dict arbitrary: conf)
  case Nil
  then show ?case by simp
next
  case (Cons e dict)
  obtain k vs where e: "e = (k, vs)" by (cases e)
  from Cons.IH [of "variants_loop sc q k vs conf"] variants_loop_keys [of sc q k vs conf]
  show ?case unfolding e by auto
qed

lemma winner_confidence_loop:
  assumes "winner (confidence_loop sc q dict []) = Some k"
  shows "k \<in> fst ` set dict \<and> map_of (confidence_loop sc q dict []) k \<noteq> None"
proof -
  from winner_key [OF assms] have m: "map_of (confidence_loop sc q dict []) k \<noteq> None" .
  then have "k \<in> fst ` set (confidence_loop sc q dict [])" by (simp add: map_of_eq_None_iff)
  with confidence_loop_keys [of sc q dict "[]"] m show ?thesis by auto
qed

lemma first_synonym_key:
  "first_synonym dict q cur = Some k \<Longrightarrow> cur = Some k \<or> k \<in> fst ` set dict"
  by (induction dict q cur rule: first_synonym.induct) (auto simp: Let_def split: if_splits)

lemma gender_loop_key: "gender_loop dict q = Some g \<Longrightarrow> g \<in> fst ` set dict"
  by (induction dict q rule: gender_loop.induct) (auto split: if_splits)

lemma canonical_entities:
  "list_all canonical (map fst brand_entities)"
  "list_all canonical (map fst color_entities)"
  "list_all canonical (map fst category_entities)"
  "list_all canonical (map fst gender_entities)"
  by code_simp+

lemma canonical_synonyms:
  "list_all canonical (map fst brand_synonyms)"
  "list_all canonical (map fst color_synonyms)"
  "list_all canonical (map fst category_synonyms)"
  "list_all canonical (map fst gender_synonyms)"
  by code_simp+

lemma canonical_key: "list_all canonical (map fst dict) \<Longrightarrow> k \<in> fst ` set dict \<Longrightarrow> canonical k"
  by (auto simp: list_all_iff)

lemma fallback_fields:
  "brand (parse_query_fallback q) = first_synonym brand_synonyms q None"
  "color (parse_query_fallback q) = first_synonym color_synonyms q None"
  "category (parse_query_fallback q) = first_synonym category_synonyms q None"
  "gender (parse_query_fallback q) = first_synonym gender_synonyms q None"
  by (simp_all add: parse_query_fallback_def Let_def)

lemma annotated_fields:
  assumes "parse_query_with_nlp (Some a) rx query = Inr f"
  shows "\<exists>sem. semantic_analysis f = Some sem
           \<and> (\<exists>sc. brand_confidence sem = confidence_loop sc (py_lower query) brand_entities []
                    \<and> brand f = winner (brand_confidence sem))
           \<and> (\<exists>sc. color_confidence sem = confidence_loop sc (py_lower query) color_entities []
                    \<and> color f = winner (color_confidence sem))
           \<and> (\<exists>sc. category_confidence sem = confidence_loop sc (py_lower query) category_entities []
                    \<and> category f = winner (category_confidence sem))
           \<and> gender f = gender_loop gender_entities (py_lower query)"
  using assms
  by (auto simp: parse_query_with_nlp_def Let_def split: sum.splits prod.splits)

lemma attribute_ok_winner:
  assumes "list_all canonical (map fst dict)"
  shows "attribute_ok (winner (confidence_loop sc q dict [])) (Some (confidence_loop sc q dict []))"
proof (cases "winner (confidence_loop sc q dict [])")
  case None
  then show ?thesis by (simp add: attribute_ok_def)
next
  case (Some k)
  from winner_confidence_loop [OF Some] canonical_key [OF assms, of k] Some
  show ?thesis by (simp add: attribute_ok_def)
qed

lemma attribute_ok_first_synonym:
  assumes "list_all canonical (map fst dict)"
  shows "attribute_ok (first_synonym dict q None) None"
proof (cases "first_synonym dict q None")
  case None
  then show ?thesis by (simp add: attribute_ok_def)
next
  case (Some k)
  from first_synonym_key [OF Some] canonical_key [OF assms, of k] Some
  show ?thesis by (simp add: attribute_ok_def)
qed

lemma attribute_ok_gender_loop:
  assumes "list_all canonical (map fst dict)"
  shows "attribute_ok (gender_loop dict q) None"
proof (cases "gender_loop dict q")
  case None
  then show ?thesis by (simp add: attribute_ok_def)
next
  case (Some k)
  from gender_loop_key [OF Some] canonical_key [OF assms, of k] Some
  show ?thesis by (simp add: attribute_ok_def)
qed

lemma interpreted_attributes:
  assumes "parse_query_with_nlp nlp rx query = Inr f"
  shows "attribute_ok (brand f) (map_option brand_confidence (semantic_analysis f))
       \<and> attribute_ok (color f) (map_option color_confidence (semantic_analysis f))
       \<and> attribute_ok (category f) (map_option category_confidence (semantic_analysis f))
       \<and> attribute_ok (gender f) None"
proof (cases nlp)
  case None
  with assms have f: "f = parse_query_fallback (py_lower query)"
    by (simp add: parse_query_with_nlp_None)
  show ?thesis
    unfolding f fallback_fields fallback_semantic_analysis
    by (simp add: attribute_ok_first_synonym canonical_synonyms)
next
  case (Some a)
  from annotated_fields [OF assms [unfolded Some]]
  obtain sem sb sc sk where sem: "semantic_analysis f = Some sem"
    and b: "brand_confidence sem = confidence_loop sb (py_lower query) brand_entities []"
           "brand f = winner (brand_confidence sem)"
    and c: "color_confidence sem = confidence_loop sc (py_lower query) color_entities []"
           "color f = winner (color_confidence sem)"
    and k: "category_confidence sem = confidence_loop sk (py_lower query) category_entities []"
           "category f = winner (category_confidence sem)"
    and g: "gender f = gender_loop gender_entities (py_lower query)"
    by blast
  show ?thesis
    unfolding sem b c k g option.map
    by (simp add: attribute_ok_winner attribute_ok_gender_loop canonical_entities)
qed

lemma brand_step_spec:
  assumes "attribute_ok (brand f) (map_option brand_confidence (semantic_analysis f))"
  shows "brand_step f p s =
     (case (brand f, semantic_analysis f) of
        (Some target, Some sem) \<Rightarrow>
          if py_lower (get_str (p_brand p)) = target
          then s + the (map_of (brand_confidence sem) target) * 3.0
          else s * 0.3
      | _ \<Rightarrow> s)"
  using assms
  by (cases "brand f"; cases "semantic_analysis f")
     (auto simp: brand_step_def semantic_of_def attribute_ok_def canonical_def get_conf_def Let_def)

lemma color_step_spec:
  assumes "attribute_ok (color f) (map_option color_confidence (semantic_analysis f))"
  shows "color_step f p s =
     (case (color f, semantic_analysis f) of
        (Some target, Some sem) \<Rightarrow>
          if py_lower (get_str (p_color p)) = target
          then s + the (map_of (color_confidence sem) target) * 2.0
          else s * 0.4
      | _ \<Rightarrow> s)"
  using assms
  by (cases "color f"; cases "semantic_analysis f")
     (auto simp: color_step_def semantic_of_def attribute_ok_def canonical_def get_conf_def Let_def)

lemma category_step_spec:
  assumes "attribute_ok (category f) (map_option category_confidence (semantic_analysis f))"
  shows "category_step f query p s =
     (case (category f, semantic_analysis f) of
        (Some target, Some sem) \<Rightarrow>
          if py_lower (get_str (p_category p)) = target
          then s + the (map_of (category_confidence sem) target) * 1.5
          else if py_in ''shoes'' (py_lower query)
                  \<and> py_lower (get_str (p_category p))
                      \<in> {''sneakers'', ''flats'', ''boots'', ''sandals'', ''heels''}
          then s + 0.5
          else s * 0.7
      | _ \<Rightarrow> s)"
  using assms
  by (cases "category f"; cases "semantic_analysis f")
     (auto simp: category_step_def semantic_of_def attribute_ok_def canonical_def get_conf_def Let_def)

lemma gender_match_should:
  "gender_match target product_gender = (product_gender \<in> set (gender_should target))"
  by (auto simp: gender_match_def gender_should_def)

lemma gender_step_spec:
  assumes "attribute_ok (gender f) None"
  shows "gender_step f p s =
     (case gender f of
        Some target \<Rightarrow>
          if py_lower (get_str (p_gender p)) \<in> set (gender_should target)
          then s + 1.0 else s * 0.6
      | None \<Rightarrow> s)"
  using assms
  by (cases "gender f")
     (auto simp: gender_step_def attribute_ok_def canonical_def gender_match_should)

lemma foldl_bonus:
  "foldl (\<lambda>acc x. if P x then acc + (b::rat) else acc) s xs = s + b * of_nat (length (filter P xs))"
  by (induction xs arbitrary: s) (simp_all add: algebra_simps)

lemma phrase_step_spec:
  "phrase_step f p s =
     s + 0.8 * of_nat (length (filter (\<lambda>phrase. py_in phrase (py_lower (get_str (title p))))
                                     (noun_phrases (semantic_of f))))"
  unfolding phrase_step_def by (rule foldl_bonus)

text \<open>
  Claim C7: for a Filter Set of the interpreter (either path) and a candidate with
  backend relevance score \<open>s0\<close>, the score \<open>apply_nlp_scoring\<close> computes is the score of
  the specification's five rules applied in order: brand (bonus confidence times 3.0,
  penalty times 0.3), color (2.0, 0.4), category (1.5, else 0.5 for a shoe category when
  the query contains \<open>shoes\<close>, else 0.7), gender (plus 1.0, else times 0.6), and 0.8 for
  every noun phrase found in the title.
\<close>

theorem rescoring_formula:
  assumes "parse_query_with_nlp nlp rx query = Inr f" and "es_score p = Some s0"
  shows "nlp_score_of f original_query p = adjusted_score_spec f original_query p s0"
proof -
  note a = interpreted_attributes [OF assms(1)]
  from assms(2) have b: "base_score p = s0" by (simp add: base_score_def)
  show ?thesis
    unfolding nlp_score_of_def adjusted_score_spec_def Let_def b
      phrase_step_spec
      gender_step_spec [OF a [THEN conjunct2, THEN conjunct2, THEN conjunct2]]
      category_step_spec [OF a [THEN conjunct2, THEN conjunct2, THEN conjunct1]]
      color_step_spec [OF a [THEN conjunct2, THEN conjunct1]]
      brand_step_spec [OF a [THEN conjunct1]]
    by (rule refl)
qed

theorem rescoring_formula_witness:
  "(\<exists>f. parse_query_with_nlp
            (Some (\<lambda>q. \<lparr>ents = [(''CARDINAL'', ''80'')],
                         tokens = [\<lparr>tok_text = ''sneakers'', tok_pos = ''NOUN'',
                                     tok_lemma = ''sneaker'', tok_is_stop = False,
                                     tok_children = [\<lparr>child_pos = ''ADJ'', child_text = ''red''\<rparr>]\<rparr>]\<rparr>))
            (\<lambda>p t q. RxNoMatch) ''red nike sneakers under 80'' = Inr f
        \<and> nlp_score_of f ''red nike sneakers under 80'' nike_air_max = 11.9
        \<and> adjusted_score_spec f ''red nike sneakers under 80'' nike_air_max 2 = 11.9)
   \<and> es_score nike_air_max = Some 2"
proof -
  let ?a = "\<lambda>q::string. \<lparr>ents = [(''CARDINAL'', ''80'')],
                         tokens = [\<lparr>tok_text = ''sneakers'', tok_pos = ''NOUN'',
                                     tok_lemma = ''sneaker'', tok_is_stop = False,
                                     tok_children = [\<lparr>child_pos = ''ADJ'', child_text = ''red''\<rparr>]\<rparr>]\<rparr>"
  let ?f = "\<lparr>category = Some ''sneakers'', brand = Some ''nike'', color = Some ''red'',
             price_max = Some 80, price_min = None, gender = None, keywords = [''sneaker''],
             entities = Some [(''CARDINAL'', ''80'')],
             semantic_analysis =
               Some \<lparr>noun_phrases = [''red sneakers''],
                     adjective_modifiers = [(''red'', ''sneakers'')],
                     brand_confidence = [(''nike'', 1.8)], color_confidence = [(''red'', 1.5)],
                     category_confidence = [(''sneakers'', 1)]\<rparr>\<rparr>"
  have h: "parse_query_with_nlp (Some ?a) (\<lambda>p t q. RxNoMatch) ''red nike sneakers under 80'' = Inr ?f"
    by code_simp
  have e: "es_score nike_air_max = Some 2" by (simp add: nike_air_max_def)
  from rescoring_formula [OF h e, of "''red nike sneakers under 80''"]
  have eq: "adjusted_score_spec ?f ''red nike sneakers under 80'' nike_air_max 2
              = nlp_score_of ?f ''red nike sneakers under 80'' nike_air_max" by simp
  have v: "nlp_score_of ?f ''red nike sneakers under 80'' nike_air_max = 11.9" by code_simp
  from h e eq v show ?thesis by auto
qed

lemma sort_value_score_product:
  "sort_value (score_product f q p) = nlp_score_of f q p"
  by (simp add: sort_value_def score_product_def)

lemma py_sort_reverse_mset: "mset (py_sort_reverse k xs) = mset xs"
  by (simp add: py_sort_reverse_def)

lemma py_sort_reverse_sorted: "sorted_wrt (\<lambda>a b. k b \<le> k a) (py_sort_reverse k xs)"
proof -
  have "sorted (map (\<lambda>x. - k x) (sort_key (\<lambda>x. - k x) xs))" by (rule sorted_sort_key)
  then show ?thesis by (simp add: py_sort_reverse_def sorted_map)
qed

lemma py_sort_reverse_stable:
  "filter (\<lambda>x. k x = v) (py_sort_reverse k xs) = filter (\<lambda>x. k x = v) xs"
  using sort_key_stable [of "\<lambda>x. - k x" "- v" xs] by (simp add: py_sort_reverse_def)

text \<open>
  Claim C8: \<open>apply_nlp_scoring\<close> returns every candidate of its input exactly once, with
  its scores written; the result is in descending order of adjusted score; and the
  sort is stable: the candidates of any one adjusted score keep their retrieval order.
\<close>

theorem rescoring_sorts_stably:
  "mset (apply_nlp_scoring products f q) = image_mset (score_product f q) (mset products)
   \<and> sorted_wrt (\<lambda>a b. sort_value b \<le> sort_value a) (apply_nlp_scoring products f q)
   \<and> (\<forall>v. filter (\<lambda>p. sort_value p = v) (apply_nlp_scoring products f q)
            = filter (\<lambda>p. sort_value p = v) (map (score_product f q) products))
   \<and> map sort_value (map (score_product f q) products) = map (nlp_score_of f q) products"
  by (simp add: apply_nlp_scoring_def py_sort_reverse_mset py_sort_reverse_sorted
      py_sort_reverse_stable sort_value_score_product)

lemma nike_ranks_first:
  "map title
     (apply_nlp_scoring [adidas_runner, nike_air_max]
        \<lparr>category = Some ''sneakers'', brand = Some ''nike'', color = Some ''red'',
         price_max = Some 80, price_min = None, gender = None, keywords = [''sneaker''],
         entities = Some [(''CARDINAL'', ''80'')],
         semantic_analysis =
           Some \<lparr>noun_phrases = [''red sneakers''],
                 adjective_modifiers = [(''red'', ''sneakers'')],
                 brand_confidence = [(''nike'', 1.8)], color_confidence = [(''red'', 1.5)],
                 category_confidence = [(''sneakers'', 1)]\<rparr>\<rparr>
        ''red nike sneakers under 80'')
   = [Some ''Nike Air Max'', Some ''Adidas Runner'']"
  by code_simp

section \<open>The aggregation pipeline of the simple backend\<close>

lemma composite_score_nonneg:
  "0 \<le> price p \<Longrightarrow> composite_score p = Inr (composite_formula p)"
  by (simp add: composite_score_def mongo_divide_def composite_formula_def)

lemma add_fields_nonneg:
  "\<forall>p \<in> set ps. 0 \<le> price p \<Longrightarrow>
   add_fields ps = Inr (map (\<lambda>p. p\<lparr>score := Some (composite_formula p)\<rparr>) ps)"
  by (induction ps) (simp_all add: composite_score_nonneg)

lemma sort_stage_ranked: "sorted_wrt ranked_before (sort_stage ps)"
proof -
  have "sorted (map (\<lambda>p. (- score_of p, price p, - rating p)) (sort_stage ps))"
    unfolding sort_stage_def by (rule sorted_sort_key)
  then have "sorted_wrt (\<lambda>a b. (- score_of a, price a, - rating a) \<le> (- score_of b, price b, - rating b))
               (sort_stage ps)"
    by (simp add: sorted_map)
  then show ?thesis
    by (rule sorted_wrt_mono_rel [rotated]) (auto simp: ranked_before_def)
qed

text \<open>
  Claim C9: when no candidate has a negative price, the divisor \<open>price + 1\<close> is never
  zero (also for price 0) and the composite score is
  \<open>rating * 2 + (5 if stock > 0 else 0) + 100 / (price + 1)\<close>; the pipeline does not fail
  and returns the first 50 of the matching candidates ranked by score descending, then
  price ascending, then rating descending.
\<close>

theorem composite_score_defined:
  assumes "\<forall>p \<in> set coll. 0 \<le> price p"
  shows "(\<forall>p \<in> set coll. price p + 1 \<noteq> 0 \<and> composite_score p = Inr (composite_formula p))
       \<and> (\<exists>ranked. pipeline matches coll = Inr (take 50 ranked)
             \<and> mset ranked = image_mset (\<lambda>p. p\<lparr>score := Some (composite_formula p)\<rparr>)
                                (mset (filter matches coll))
             \<and> sorted_wrt ranked_before ranked
             \<and> sorted_wrt ranked_before (take 50 ranked)
             \<and> length (take 50 ranked) \<le> 50)"
proof -
  let ?w = "\<lambda>p. p\<lparr>score := Some (composite_formula p)\<rparr>"
  let ?ranked = "sort_stage (map ?w (filter matches coll))"
  from assms have d: "\<forall>p \<in> set coll. price p + 1 \<noteq> 0 \<and> composite_score p = Inr (composite_formula p)"
    by (auto simp: composite_score_nonneg)
  from assms have "\<forall>p \<in> set (filter matches coll). 0 \<le> price p" by simp
  from add_fields_nonneg [OF this]
  have p: "pipeline matches coll = Inr (take 50 ?ranked)" by (simp add: pipeline_def)
  have m: "mset ?ranked = image_mset ?w (mset (filter matches coll))"
    by (simp add: sort_stage_def)
  have s: "sorted_wrt ranked_before ?ranked" by (rule sort_stage_ranked)
  then have s': "sorted_wrt ranked_before (take 50 ?ranked)" by (rule sorted_wrt_take)
  from d p m s s' show ?thesis by auto
qed

theorem composite_score_defined_witness:
  "list_all (\<lambda>p. 0 \<le> price p) [adidas_runner, nike_air_max\<lparr>price := 0\<rparr>]
   \<and> composite_score (nike_air_max\<lparr>price := 0\<rparr>) = Inr 114
   \<and> pipeline (\<lambda>p. True) [adidas_runner, nike_air_max\<lparr>price := 0\<rparr>]
       = Inr [nike_air_max\<lparr>price := 0, score := Some 114\<rparr>,
              adidas_runner\<lparr>score := Some (3428 / 305)\<rparr>]"
proof -
  have h: "\<forall>p \<in> set [adidas_runner, nike_air_max\<lparr>price := 0\<rparr>]. 0 \<le> price p"
    by (simp add: adidas_runner_def nike_air_max_def)
  from composite_score_defined [OF h, of "\<lambda>p. True"]
  have c: "composite_score (nike_air_max\<lparr>price := 0\<rparr>)
             = Inr (composite_formula (nike_air_max\<lparr>price := 0\<rparr>))" by simp
  have v: "composite_formula (nike_air_max\<lparr>price := 0\<rparr>) = 114"
    by (simp add: composite_formula_def nike_air_max_def)
  have p: "pipeline (\<lambda>p. True) [adidas_runner, nike_air_max\<lparr>price := 0\<rparr>]
       = Inr [nike_air_max\<lparr>price := 0, score := Some 114\<rparr>,
              adidas_runner\<lparr>score := Some (3428 / 305)\<rparr>]"
    by code_simp
  from h c v p show ?thesis by (simp add: list_all_iff)
qed

section \<open>A price bound of 0\<close>

lemma wrapped_no_cmp:
  assumes "\<forall>c \<in> set cs. \<exists>ts. c = Or_conds ts"
  shows "Cmp fld opr n \<notin> set (case cs of [] \<Rightarrow> [] | [c] \<Rightarrow> [c] | _ \<Rightarrow> [And_conds cs])"
proof (cases cs)
  case Nil
  then show ?thesis by simp
next
  case (Cons c rest)
  with assms show ?thesis by (cases rest) auto
qed

lemma text_conds_no_cmp: "Cmp fld opr n \<notin> set (text_conds f query)"
proof -
  have "\<forall>c \<in> set (map term_condition xs). \<exists>ts. c = Or_conds ts" for xs
    by (simp add: term_condition_def)
  from wrapped_no_cmp [OF this] show ?thesis
    by (simp add: text_conds_def Let_def)
qed

lemma attribute_cond_no_cmp: "Cmp fld opr n \<notin> set (attribute_cond fld' v)"
  by (simp add: attribute_cond_def split: option.splits)

lemma mongo_conds_cmp:
  "Cmp fld opr n \<in> set (mongo_conds f query) \<longleftrightarrow> Cmp fld opr n \<in> set (price_conds f)"
  by (simp add: mongo_conds_def attribute_cond_no_cmp text_conds_no_cmp)

lemma zero_max_requests:
  assumes "price_max f = Some 0"
  shows "build_es_query f query = build_es_query (f\<lparr>price_max := None\<rparr>) query"
    and "mongo_query f query = mongo_query (f\<lparr>price_max := None\<rparr>) query"
    and "Range_filter ''price'' ''lte'' n \<notin> set (filter_clauses f)"
    and "Cmp ''price'' ''$lte'' n \<notin> set (mongo_conds f query)"
proof -
  from assms have "filter_clauses f = filter_clauses (f\<lparr>price_max := None\<rparr>)"
    by (simp add: filter_clauses_def)
  moreover have "should_clauses f query = should_clauses (f\<lparr>price_max := None\<rparr>) query"
    by (simp add: should_clauses_def keyword_clauses_def plain_clauses_def gender_clauses_def
        split: option.splits)
  ultimately show "build_es_query f query = build_es_query (f\<lparr>price_max := None\<rparr>) query"
    by (simp add: build_es_query_def)
  from assms have "mongo_conds f query = mongo_conds (f\<lparr>price_max := None\<rparr>) query"
    by (simp add: mongo_conds_def price_conds_def text_conds_def)
  then show "mongo_query f query = mongo_query (f\<lparr>price_max := None\<rparr>) query"
    by (simp add: mongo_query_def)
  from assms show "Range_filter ''price'' ''lte'' n \<notin> set (filter_clauses f)"
    by (simp add: filter_clauses_def split: option.splits)
  from assms show "Cmp ''price'' ''$lte'' n \<notin> set (mongo_conds f query)"
    by (simp add: mongo_conds_cmp price_conds_def split: option.splits)
qed

lemma zero_min_requests:
  assumes "price_min f = Some 0"
  shows "build_es_query f query = build_es_query (f\<lparr>price_min := None\<rparr>) query"
    and "mongo_query f query = mongo_query (f\<lparr>price_min := None\<rparr>) query"
    and "Range_filter ''price'' ''gte'' n \<notin> set (filter_clauses f)"
    and "Cmp ''price'' ''$gte'' n \<notin> set (mongo_conds f query)"
proof -
  from assms have "filter_clauses f = filter_clauses (f\<lparr>price_min := None\<rparr>)"
    by (simp add: filter_clauses_def)
  moreover have "should_clauses f query = should_clauses (f\<lparr>price_min := None\<rparr>) query"
    by (simp add: should_clauses_def keyword_clauses_def plain_clauses_def gender_clauses_def
        split: option.splits)
  ultimately show "build_es_query f query = build_es_query (f\<lparr>price_min := None\<rparr>) query"
    by (simp add: build_es_query_def)
  from assms have "mongo_conds f query = mongo_conds (f\<lparr>price_min := None\<rparr>) query"
    by (simp add: mongo_conds_def price_conds_def text_conds_def)
  then show "mongo_query f query = mongo_query (f\<lparr>price_min := None\<rparr>) query"
    by (simp add: mongo_query_def)
  from assms show "Range_filter ''price'' ''gte'' n \<notin> set (filter_clauses f)"
    by (simp add: filter_clauses_def split: option.splits)
  from assms show "Cmp ''price'' ''$gte'' n \<notin> set (mongo_conds f query)"
    by (simp add: mongo_conds_cmp price_conds_def split: option.splits)
qed

text \<open>
  Claim C10: a price bound of 0 is read as unset. When the entity statement of the
  annotated parser leaves a bound of 0, the plain patterns still run over the query;
  and for a Filter Set with a bound of 0 both requests are those of the Filter Set
  without the bound: the rich backend gets no range filter and the simple backend no
  price predicate for it.
\<close>

theorem zero_bound_read_as_unset:
  "(entity_price rx ef q = Inr (Some 0, None)
      \<longrightarrow> nlp_price rx ef q = Inr (regex_price under_patterns_nlp over_patterns_nlp q (Some 0, None)))
   \<and> (entity_price rx ef q = Inr (None, Some 0)
      \<longrightarrow> nlp_price rx ef q = Inr (regex_price under_patterns_nlp over_patterns_nlp q (None, Some 0)))
   \<and> (price_max f = Some 0
      \<longrightarrow> build_es_query f query = build_es_query (f\<lparr>price_max := None\<rparr>) query
          \<and> mongo_query f query = mongo_query (f\<lparr>price_max := None\<rparr>) query
          \<and> (\<forall>n. Range_filter ''price'' ''lte'' n \<notin> set (filter_clauses f))
          \<and> (\<forall>n. Cmp ''price'' ''$lte'' n \<notin> set (mongo_conds f query)))
   \<and> (price_min f = Some 0
      \<longrightarrow> build_es_query f query = build_es_query (f\<lparr>price_min := None\<rparr>) query
          \<and> mongo_query f query = mongo_query (f\<lparr>price_min := None\<rparr>) query
          \<and> (\<forall>n. Range_filter ''price'' ''gte'' n \<notin> set (filter_clauses f))
          \<and> (\<forall>n. Cmp ''price'' ''$gte'' n \<notin> set (mongo_conds f query)))"
proof -
  have a: "entity_price rx ef q = Inr (Some 0, None)
      \<longrightarrow> nlp_price rx ef q = Inr (regex_price under_patterns_nlp over_patterns_nlp q (Some 0, None))"
    by (simp add: nlp_price_def truthy_int_def)
  have b: "entity_price rx ef q = Inr (None, Some 0)
      \<longrightarrow> nlp_price rx ef q = Inr (regex_price under_patterns_nlp over_patterns_nlp q (None, Some 0))"
    by (simp add: nlp_price_def truthy_int_def)
  from a b zero_max_requests [of f] zero_min_requests [of f] show ?thesis by blast
qed

theorem zero_bound_read_as_unset_witness:
  "entity_price (\<lambda>p t q. RxNoMatch) [(''MONEY'', ''$0'')] ''$0 over 50'' = Inr (Some 0, None)
   \<and> nlp_price (\<lambda>p t q. RxNoMatch) [(''MONEY'', ''$0'')] ''$0 over 50'' = Inr (Some 0, Some 50)
   \<and> price_max (parse_query_fallback ''under 0 over 50'') = Some 0
   \<and> filter_key (build_es_query (parse_query_fallback ''under 0 over 50'') ''under 0 over 50'')
       = Some [Range_filter ''price'' ''gte'' 50]
   \<and> price_conds (parse_query_fallback ''under 0 over 50'') = [Cmp ''price'' ''$gte'' 50]"
proof -
  note T = zero_bound_read_as_unset
             [of "\<lambda>p t q. RxNoMatch" "[(''MONEY'', ''$0'')]" "''$0 over 50''"
                 "parse_query_fallback ''under 0 over 50''" "''under 0 over 50''"]
  have e: "entity_price (\<lambda>p t q. RxNoMatch) [(''MONEY'', ''$0'')] ''$0 over 50'' = Inr (Some 0, None)"
    by code_simp
  with T have "nlp_price (\<lambda>p t q. RxNoMatch) [(''MONEY'', ''$0'')] ''$0 over 50''
                 = Inr (regex_price under_patterns_nlp over_patterns_nlp ''$0 over 50'' (Some 0, None))"
    by blast
  moreover have "regex_price under_patterns_nlp over_patterns_nlp ''$0 over 50'' (Some 0, None)
                   = (Some 0, Some 50)"
    by code_simp
  ultimately have n: "nlp_price (\<lambda>p t q. RxNoMatch) [(''MONEY'', ''$0'')] ''$0 over 50''
                        = Inr (Some 0, Some 50)" by simp
  have m: "price_max (parse_query_fallback ''under 0 over 50'') = Some 0" by code_simp
  with T have "build_es_query (parse_query_fallback ''under 0 over 50'') ''under 0 over 50''
                 = build_es_query ((parse_query_fallback ''under 0 over 50'')\<lparr>price_max := None\<rparr>)
                     ''under 0 over 50''"
    by blast
  moreover have "filter_key (build_es_query ((parse_query_fallback ''under 0 over 50'')\<lparr>price_max := None\<rparr>)
                     ''under 0 over 50'')
                   = Some [Range_filter ''price'' ''gte'' 50]"
    by code_simp
  ultimately have f: "filter_key (build_es_query (parse_query_fallback ''under 0 over 50'') ''under 0 over 50'')
                        = Some [Range_filter ''price'' ''gte'' 50]" by simp
  have c: "price_conds (parse_query_fallback ''under 0 over 50'') = [Cmp ''price'' ''$gte'' 50]"
    by code_simp
  from e n m f c show ?thesis by simp
qed

section \<open>The integer of a captured group\<close>

text \<open>
  Group 1 of every plain pattern is a non-empty run of digits, so for a run within the
  limit of \<open>int\<close> the call \<open>int(match.group(1))\<close> does not raise and its value is the
  decimal value of the run: \<open>group_int\<close> is \<open>py_int\<close> on the group.
\<close>

lemma digit_not_int_space: "is_digit c \<Longrightarrow> \<not> is_int_space c"
  by (auto simp: is_digit_def is_int_space_def)

lemma digit_not_sign: "is_digit c \<Longrightarrow> c \<noteq> CHR ''+'' \<and> c \<noteq> CHR ''-'' \<and> c \<noteq> CHR ''_''"
  by (auto simp: is_digit_def)

lemma py_in_underscores: "py_in ''__'' s \<Longrightarrow> CHR ''_'' \<in> set s"
  by (induction s) (auto elim: starts_with.elims)

lemma int_strip_digits:
  assumes "ds \<noteq> []" and "list_all is_digit ds"
  shows "int_strip ds = ds"
proof -
  from assms have "\<not> is_int_space (hd ds)" and "\<not> is_int_space (last ds)"
    by (auto simp: list_all_iff digit_not_int_space)
  with assms(1) have "dropWhile is_int_space ds = ds"
    and "dropWhile is_int_space (rev ds) = rev ds"
    by (simp_all add: dropWhile_eq_self_iff hd_rev)
  then show ?thesis by (simp add: int_strip_def)
qed

lemma py_int_digits:
  assumes "ds \<noteq> []" and "list_all is_digit ds" and "length ds \<le> int_max_str_digits"
  shows "py_int ds = Some (int (digits_value ds))"
proof -
  have s: "int_strip ds = ds" by (rule int_strip_digits [OF assms(1,2)])
  from assms obtain c cs where ds: "ds = c # cs" and c: "is_digit c"
    by (cases ds) auto
  from assms have l: "is_digit (last ds)" by (auto simp: list_all_iff)
  from assms(2) have u: "CHR ''_'' \<notin> set ds"
    using digit_not_sign by (auto simp: list_all_iff)
  with py_in_underscores have "\<not> py_in ''__'' ds" by blast
  moreover from assms(2) have fd: "filter is_digit ds = ds" by (simp add: list_all_iff)
  ultimately have ok: "int_literal_ok ds"
    using assms c l ds by (auto simp: int_literal_ok_def list_all_iff)
  from assms(2) have "filter is_digit ds = ds" by (simp add: list_all_iff)
  with ok have "int_literal ds = Some (int (digits_value ds))" by (simp add: int_literal_def)
  with s c ds digit_not_sign [OF c] show ?thesis by (simp add: py_int_def)
qed

lemma take_digits:
  assumes "1 \<le> k" and "k \<le> length (takeWhile is_digit s)"
  shows "take k s \<noteq> [] \<and> list_all is_digit (take k s)"
proof -
  have "take k (takeWhile is_digit s @ dropWhile is_digit s) = take k (takeWhile is_digit s)"
    using assms(2) by (simp del: takeWhile_dropWhile_id)
  then have t: "take k s = take k (takeWhile is_digit s)" by simp
  have "set (take k (takeWhile is_digit s)) \<subseteq> set (takeWhile is_digit s)"
    by (rule set_take_subset)
  then have "list_all is_digit (take k (takeWhile is_digit s))"
    by (auto simp: list_all_iff dest: set_takeWhileD)
  moreover from assms have "take k (takeWhile is_digit s) \<noteq> []" by auto
  ultimately show ?thesis by (simp add: t)
qed

lemma re_match_group:
  "Digits \<in> set p \<Longrightarrow> g \<in> set (re_match p s) \<Longrightarrow> g \<noteq> [] \<and> list_all is_digit g"
proof (induction p arbitrary: s)
  case Nil
  then show ?case by simp
next
  case (Cons e p)
  show ?case
  proof (cases e)
    case (Lit l)
    with Cons.prems have "Digits \<in> set p" and "g \<in> set (re_match p (drop (length l) s))"
      by (auto split: if_splits)
    then show ?thesis by (rule Cons.IH)
  next
    case Spaces1
    with Cons.prems obtain k where "Digits \<in> set p" and "g \<in> set (re_match p (drop k s))"
      by auto
    then show ?thesis by (rule Cons.IH)
  next
    case Spaces0
    with Cons.prems obtain k where "Digits \<in> set p" and "g \<in> set (re_match p (drop k s))"
      by auto
    then show ?thesis by (rule Cons.IH)
  next
    case Digits
    with Cons.prems(2) obtain k where "1 \<le> k" "k \<le> length (takeWhile is_digit s)"
      and "g = take k s" by auto
    with take_digits [of k s] show ?thesis by simp
  qed
qed

lemma re_search_group:
  "Digits \<in> set p \<Longrightarrow> re_search p s = Some g \<Longrightarrow> g \<noteq> [] \<and> list_all is_digit g"
proof (induction p s rule: re_search.induct)
  case (1 p)
  then show ?case using re_match_group [of p _ "[]"] by (auto split: list.splits)
next
  case (2 p c s)
  then show ?case using re_match_group [of p _ "c # s"] by (auto split: list.splits)
qed

lemma first_match_group:
  "\<forall>p \<in> set ps. Digits \<in> set p \<Longrightarrow> first_match ps q = Some g \<Longrightarrow> g \<noteq> [] \<and> list_all is_digit g"
  by (induction ps) (auto split: option.splits dest: re_search_group)

lemma group_int_py_int:
  assumes "\<forall>p \<in> set ps. Digits \<in> set p" and "first_match ps q = Some g"
    and "length g \<le> int_max_str_digits"
  shows "group_int (first_match ps q) = py_int g"
  using first_match_group [OF assms(1,2)] py_int_digits [of g] assms(2,3)
  by (simp add: group_int_def)

lemma pattern_lists_have_group:
  "\<forall>p \<in> set under_patterns_fallback. Digits \<in> set p"
  "\<forall>p \<in> set over_patterns_fallback. Digits \<in> set p"
  "\<forall>p \<in> set under_patterns_nlp. Digits \<in> set p"
  "\<forall>p \<in> set over_patterns_nlp. Digits \<in> set p"
  by (simp_all add: under_patterns_fallback_def over_patterns_fallback_def under_patterns_nlp_def
      over_patterns_nlp_def)

end
